theory Spec2Isabelle
  imports Main "HOL-Library.AList"
begin

section \<open>Python values, exceptions and string primitives\<close>

text \<open>
  The tools return Python dictionaries. A dictionary is an association list in insertion
  order; \<open>AList.update\<close> is Python's \<open>d[k] = v\<close> (replace in place, or append a new key) and
  \<open>map_of\<close> is the lookup.
\<close>

datatype pyval = PBool bool | PStr string | PInt nat | PNone

type_synonym pydict = "(string \<times> pyval) list"

text \<open>
  Exceptions that the code names, each with the text \<open>str(e)\<close> gives. Every other exception
  class deriving from \<open>Exception\<close> is \<open>OtherException\<close>.
\<close>

datatype pyexn =
    ValueError string
  | ClientError string
  | NoCredentialsError string
  | OtherException string

fun str_exn :: "pyexn \<Rightarrow> string" where
  "str_exn (ValueError m) = m"
| "str_exn (ClientError m) = m"
| "str_exn (NoCredentialsError m) = m"
| "str_exn (OtherException m) = m"

text \<open>\<open>s.endswith(suf)\<close>.\<close>

definition endswith :: "string \<Rightarrow> string \<Rightarrow> bool" where
  "endswith s suf = (length suf \<le> length s \<and> drop (length s - length suf) s = suf)"

text \<open>\<open>s.rstrip(chars)\<close>: drops every trailing character that occurs in \<open>chars\<close>.\<close>

definition rstrip :: "string \<Rightarrow> string \<Rightarrow> string" where
  "rstrip chars s = rev (dropWhile (\<lambda>c. c \<in> set chars) (rev s))"

text \<open>
  \<open>s.lower()\<close> on the ASCII letters. The code compares the result with \<open>'true'\<close> only, and
  no character outside \<open>A-Z\<close> lowers to one of \<open>t\<close>, \<open>r\<close>, \<open>u\<close>, \<open>e\<close>.
\<close>

definition lower_char :: "char \<Rightarrow> char" where
  "lower_char c =
     (case map_of (zip ''ABCDEFGHIJKLMNOPQRSTUVWXYZ'' ''abcdefghijklmnopqrstuvwxyz'') c of
        None \<Rightarrow> c
      | Some l \<Rightarrow> l)"

definition lower :: "string \<Rightarrow> string" where
  "lower s = map lower_char s"

text \<open>\<open>os.path.basename(p)\<close> (posixpath): what follows the last \<open>/\<close>.\<close>

definition basename :: "string \<Rightarrow> string" where
  "basename p = rev (takeWhile (\<lambda>c. c \<noteq> CHR ''/'') (rev p))"

text \<open>\<open>str(n)\<close> for a non-negative integer.\<close>

definition digit_char :: "nat \<Rightarrow> char" where
  "digit_char d = ''0123456789'' ! d"

function str_nat :: "nat \<Rightarrow> string" where
  "str_nat n = (if n < 10 then [digit_char n] else str_nat (n div 10) @ [digit_char (n mod 10)])"
  by pat_completeness auto
termination
  by (relation "measure (\<lambda>n. n)") auto

declare str_nat.simps [simp del]

text \<open>An f-string field holding an optional string: \<open>None\<close> prints as \<open>None\<close>.\<close>

fun fmt_opt :: "string option \<Rightarrow> string" where
  "fmt_opt None = ''None''"
| "fmt_opt (Some s) = s"

fun pyval_of_opt :: "string option \<Rightarrow> pyval" where
  "pyval_of_opt None = PNone"
| "pyval_of_opt (Some s) = PStr s"

text \<open>\<open>os.getenv(name, default)\<close> and \<open>os.getenv(name)\<close> over the process environment.\<close>

type_synonym environ = "string \<rightharpoonup> string"

definition getenv_default :: "environ \<Rightarrow> string \<Rightarrow> string \<Rightarrow> string" where
  "getenv_default env name dflt = (case env name of None \<Rightarrow> dflt | Some v \<Rightarrow> v)"

definition getenv :: "environ \<Rightarrow> string \<Rightarrow> string option" where
  "getenv env name = env name"

text \<open>Truthiness, as \<open>if x:\<close> and \<open>not x\<close> test it, and \<open>str(x)\<close> as an f-string prints it.\<close>

fun truthy_opt :: "string option \<Rightarrow> bool" where
  "truthy_opt None = False"
| "truthy_opt (Some s) = (s \<noteq> [])"

fun truthy :: "pyval \<Rightarrow> bool" where
  "truthy (PBool b) = b"
| "truthy (PStr s) = (s \<noteq> [])"
| "truthy (PInt n) = (n \<noteq> 0)"
| "truthy PNone = False"

fun str_pyval :: "pyval \<Rightarrow> string" where
  "str_pyval (PBool b) = (if b then ''True'' else ''False'')"
| "str_pyval (PStr s) = s"
| "str_pyval (PInt n) = str_nat n"
| "str_pyval PNone = ''None''"

section \<open>Documents, collaborators and the process state\<close>

text \<open>
  A document is opaque to the tools: they store it, hand it to the document library and
  read \<open>len(pres.slides)\<close> and \<open>len(pres.slide_layouts)\<close>.
\<close>

datatype presentation = Presentation (doc_id: nat) (slide_count: nat) (layout_count: nat)

text \<open>The object \<open>boto3.client('s3', ...)\<close> returns, with the arguments it was built from.\<close>

datatype s3client =
  S3Client (aws_access_key_id: "string option") (aws_secret_access_key: "string option")
    (region_name: string)

record S3Handler =
  s3_enabled :: bool
  s3_bucket :: "string option"
  s3_prefix :: string
  s3_region :: string
  s3_client :: "s3client option"

text \<open>
  Every call that leaves the tools is recorded: reading the configuration, building the
  client, serialising a document into the buffer, the object-store write, the signing
  request and the save to a local path.
\<close>

datatype event =
    ReadConfig
  | CreateClient
  | SerializeToBuffer presentation
  | S3Upload "string option" string
  | S3Presign "string option" string nat
  | LocalSave presentation string

fun is_local_write :: "event \<Rightarrow> bool" where
  "is_local_write (LocalSave p f) = True"
| "is_local_write ev = False"

fun is_remote_op :: "event \<Rightarrow> bool" where
  "is_remote_op CreateClient = True"
| "is_remote_op (S3Upload b k) = True"
| "is_remote_op (S3Presign b k n) = True"
| "is_remote_op ev = False"

fun is_config_read :: "event \<Rightarrow> bool" where
  "is_config_read ReadConfig = True"
| "is_config_read ev = False"

text \<open>
  What the collaborators answer: the environment, \<open>boto3.client\<close> (the exception it
  raises, if any), \<open>prs.save(buffer)\<close>, the client's \<open>upload_fileobj\<close> and
  \<open>generate_presigned_url\<close>, the document library \<open>ppt_utils\<close>, \<open>os.path.exists\<close> and the
  caller's \<open>get_current_presentation_id\<close>. \<open>Inl\<close> and \<open>Some\<close> of an exception is a raise.
\<close>

record world =
  os_environ :: environ
  boto3_client :: "pyexn option"
  prs_save :: "presentation \<Rightarrow> pyexn option"
  upload_fileobj :: "string option \<Rightarrow> string \<Rightarrow> pyexn option"
  client_generate_presigned_url :: "string option \<Rightarrow> string \<Rightarrow> nat \<Rightarrow> pyexn + string"
  ppt_create_presentation :: "pyexn + presentation"
  ppt_open_presentation :: "string \<Rightarrow> pyexn + presentation"
  ppt_save_presentation :: "presentation \<Rightarrow> string \<Rightarrow> pyexn + string"
  path_exists :: "string \<Rightarrow> bool"
  get_current_presentation_id :: "pyexn + string option"

text \<open>
  The mutable state: the registry \<open>presentations\<close> (a dictionary, keys distinct), the module
  global \<open>_s3_handler\<close> and the record of outside calls.
\<close>

record state =
  presentations :: "(string \<times> presentation) list"
  s3_handler_global :: "S3Handler option"
  trace :: "event list"

definition log_event :: "event \<Rightarrow> state \<Rightarrow> state" where
  "log_event ev st = st\<lparr>trace := trace st @ [ev]\<rparr>"

section \<open>The storage resolver: \<open>utils/s3_utils.py\<close>\<close>

text \<open>\<open>except NoCredentialsError: raise ValueError(...)\<close> around \<open>boto3.client\<close>.\<close>

fun init_except :: "pyexn \<Rightarrow> pyexn" where
  "init_except (NoCredentialsError m) = ValueError ''AWS credentials not configured properly''"
| "init_except e = e"

definition S3Handler_init :: "world \<Rightarrow> state \<Rightarrow> (pyexn + S3Handler) \<times> state" where
  "S3Handler_init w st =
     (let env = os_environ w;
          enabled = (lower (getenv_default env ''S3_ENABLED'' ''false'') = ''true'');
          bucket = getenv env ''S3_BUCKET_NAME'';
          prefix = getenv_default env ''S3_PREFIX'' ''presentations/'';
          region = getenv_default env ''AWS_DEFAULT_REGION'' ''us-east-1'';
          st1 = log_event ReadConfig st
      in if enabled then
           (if \<not> truthy_opt bucket then
              (Inl (ValueError ''S3_ENABLED is true but S3_BUCKET_NAME is not set''), st1)
            else
              (let st2 = log_event CreateClient st1
               in case boto3_client w of
                    Some e \<Rightarrow> (Inl (init_except e), st2)
                  | None \<Rightarrow>
                      (Inr \<lparr>s3_enabled = enabled, s3_bucket = bucket, s3_prefix = prefix,
                            s3_region = region,
                            s3_client = Some (S3Client (getenv env ''AWS_ACCESS_KEY_ID'')
                                               (getenv env ''AWS_SECRET_ACCESS_KEY'') region)\<rparr>,
                       st2)))
         else
           (Inr \<lparr>s3_enabled = enabled, s3_bucket = bucket, s3_prefix = prefix,
                 s3_region = region, s3_client = None\<rparr>, st1))"

text \<open>\<open>except ClientError as e\<close> in \<open>upload_presentation\<close>: a failure dictionary.\<close>

fun upload_except :: "pyexn \<Rightarrow> pyexn + pydict" where
  "upload_except (ClientError m) =
     Inr [(''success'', PBool False), (''error'', PStr (''Failed to upload to S3: '' @ m))]"
| "upload_except e = Inl e"

text \<open>Calling a method on \<open>self.s3_client\<close> when it is \<open>None\<close>.\<close>

definition none_attribute_error :: "string \<Rightarrow> pyexn" where
  "none_attribute_error attr =
     OtherException ([CHR 0x27] @ ''NoneType'' @ [CHR 0x27] @ '' object has no attribute ''
        @ [CHR 0x27] @ attr @ [CHR 0x27])"

text \<open>
  Two steps of \<open>upload_presentation\<close>: the extension check
  \<open>if not filename.endswith('.pptx'): filename = f"{filename}.pptx"\<close> and the key
  \<open>f"{self.s3_prefix.rstrip('/')}/{filename}"\<close>.
\<close>

definition ensure_pptx :: "string \<Rightarrow> string" where
  "ensure_pptx filename =
     (if \<not> endswith filename ''.pptx'' then filename @ ''.pptx'' else filename)"

definition make_s3_key :: "string \<Rightarrow> string \<Rightarrow> string" where
  "make_s3_key prefix filename = rstrip ''/'' prefix @ ''/'' @ filename"

definition upload_presentation ::
  "world \<Rightarrow> S3Handler \<Rightarrow> presentation \<Rightarrow> string \<Rightarrow> state \<Rightarrow> (pyexn + pydict) \<times> state" where
  "upload_presentation w self prs filename st =
     (if \<not> s3_enabled self then
        (Inl (ValueError ''S3 is not enabled. Set S3_ENABLED=true''), st)
      else
        (let st1 = log_event (SerializeToBuffer prs) st
         in case prs_save w prs of
              Some e \<Rightarrow> (upload_except e, st1)
            | None \<Rightarrow>
                (let filename1 = ensure_pptx filename;
                     s3_key = make_s3_key (s3_prefix self) filename1
                 in case s3_client self of
                      None \<Rightarrow> (Inl (none_attribute_error ''upload_fileobj''), st1)
                    | Some client \<Rightarrow>
                        (let st2 = log_event (S3Upload (s3_bucket self) s3_key) st1
                         in case upload_fileobj w (s3_bucket self) s3_key of
                              Some e \<Rightarrow> (upload_except e, st2)
                            | None \<Rightarrow>
                                (let s3_url = ''s3://'' @ fmt_opt (s3_bucket self) @ ''/'' @ s3_key;
                                     https_url = ''https://'' @ fmt_opt (s3_bucket self) @ ''.s3.''
                                        @ s3_region self @ ''.amazonaws.com/'' @ s3_key
                                 in (Inr [(''success'', PBool True),
                                          (''s3_url'', PStr s3_url),
                                          (''https_url'', PStr https_url),
                                          (''bucket'', pyval_of_opt (s3_bucket self)),
                                          (''key'', PStr s3_key),
                                          (''filename'', PStr filename1)], st2))))))"

text \<open>\<open>except ClientError\<close> in \<open>generate_presigned_url\<close>: \<open>return None\<close>.\<close>

fun presign_except :: "pyexn \<Rightarrow> pyexn + string option" where
  "presign_except (ClientError m) = Inr None"
| "presign_except e = Inl e"

definition generate_presigned_url ::
  "world \<Rightarrow> S3Handler \<Rightarrow> string \<Rightarrow> nat \<Rightarrow> state \<Rightarrow> (pyexn + string option) \<times> state" where
  "generate_presigned_url w self s3_key expiration st =
     (if \<not> s3_enabled self then (Inr None, st)
      else case s3_client self of
             None \<Rightarrow> (Inl (none_attribute_error ''generate_presigned_url''), st)
           | Some client \<Rightarrow>
               (let st1 = log_event (S3Presign (s3_bucket self) s3_key expiration) st
                in case client_generate_presigned_url w (s3_bucket self) s3_key expiration of
                     Inl e \<Rightarrow> (presign_except e, st1)
                   | Inr url \<Rightarrow> (Inr (Some url), st1)))"

definition get_s3_handler :: "world \<Rightarrow> state \<Rightarrow> (pyexn + S3Handler) \<times> state" where
  "get_s3_handler w st =
     (case s3_handler_global st of
        Some h \<Rightarrow> (Inr h, st)
      | None \<Rightarrow>
          (case S3Handler_init w st of
             (Inl e, st1) \<Rightarrow> (Inl e, st1)
           | (Inr h, st1) \<Rightarrow> (Inr h, st1\<lparr>s3_handler_global := Some h\<rparr>)))"

text \<open>A sequence of calls in one process; the environment may differ from call to call.\<close>

fun get_s3_handler_calls :: "world list \<Rightarrow> state \<Rightarrow> (pyexn + S3Handler) list \<times> state" where
  "get_s3_handler_calls [] st = ([], st)"
| "get_s3_handler_calls (w # ws) st =
     (case get_s3_handler w st of
        (r, st1) \<Rightarrow> (case get_s3_handler_calls ws st1 of (rs, st2) \<Rightarrow> (r # rs, st2)))"

section \<open>The tools: \<open>tools/presentation_tools.py\<close>\<close>

text \<open>
  \<open>d[k]\<close> raises \<open>KeyError\<close> on a missing key (its text is the quoted key);
  \<open>d.get(k, default)\<close> does not.
\<close>

definition getitem :: "pydict \<Rightarrow> string \<Rightarrow> pyexn + pyval" where
  "getitem d k =
     (case map_of d k of
        None \<Rightarrow> Inl (OtherException ([CHR 0x27] @ k @ [CHR 0x27]))
      | Some v \<Rightarrow> Inr v)"

definition dict_get :: "pydict \<Rightarrow> string \<Rightarrow> pyval \<Rightarrow> pyval" where
  "dict_get d k dflt = (case map_of d k of None \<Rightarrow> dflt | Some v \<Rightarrow> v)"

text \<open>The identifier generated when the caller gives none.\<close>

definition generated_id :: "(string \<times> presentation) list \<Rightarrow> string" where
  "generated_id reg = ''presentation_'' @ str_nat (length reg + 1)"

definition create_presentation ::
  "world \<Rightarrow> string option \<Rightarrow> state \<Rightarrow> (pyexn + pydict) \<times> state" where
  "create_presentation w ident st =
     (case ppt_create_presentation w of
        Inl e \<Rightarrow> (Inl e, st)
      | Inr pres \<Rightarrow>
          (let id1 = (case ident of None \<Rightarrow> generated_id (presentations st) | Some i \<Rightarrow> i);
               st1 = st\<lparr>presentations := AList.update id1 pres (presentations st)\<rparr>
           in (Inr [(''presentation_id'', PStr id1),
                    (''message'', PStr (''Created new presentation with ID: '' @ id1)),
                    (''slide_count'', PInt (slide_count pres))], st1)))"

definition open_presentation ::
  "world \<Rightarrow> string \<Rightarrow> string option \<Rightarrow> state \<Rightarrow> (pyexn + pydict) \<times> state" where
  "open_presentation w file_path ident st =
     (if \<not> path_exists w file_path then
        (Inr [(''error'', PStr (''File not found: '' @ file_path))], st)
      else case ppt_open_presentation w file_path of
             Inl e \<Rightarrow>
               (Inr [(''error'', PStr (''Failed to open presentation: '' @ str_exn e))], st)
           | Inr pres \<Rightarrow>
               (let id1 = (case ident of None \<Rightarrow> generated_id (presentations st) | Some i \<Rightarrow> i);
                    st1 = st\<lparr>presentations := AList.update id1 pres (presentations st)\<rparr>
                in (Inr [(''presentation_id'', PStr id1),
                         (''message'', PStr (''Opened presentation from '' @ file_path
                                              @ '' with ID: '' @ id1)),
                         (''slide_count'', PInt (slide_count pres))], st1)))"

text \<open>
  \<open>presentation_id if presentation_id is not None else get_current_presentation_id()\<close>, and
  the registry entry unless \<open>pres_id is None or pres_id not in presentations\<close>.
\<close>

definition resolve_pres_id :: "world \<Rightarrow> string option \<Rightarrow> pyexn + string option" where
  "resolve_pres_id w presentation_id =
     (case presentation_id of None \<Rightarrow> get_current_presentation_id w | Some i \<Rightarrow> Inr (Some i))"

definition lookup_presentation ::
  "string option \<Rightarrow> (string \<times> presentation) list \<Rightarrow> (string \<times> presentation) option" where
  "lookup_presentation pres_id reg =
     (case pres_id of
        None \<Rightarrow> None
      | Some k \<Rightarrow> (case map_of reg k of None \<Rightarrow> None | Some pres \<Rightarrow> Some (k, pres)))"

text \<open>The response of a successful upload, with the signed URL when there is one.\<close>

definition s3_response :: "pydict \<Rightarrow> string \<Rightarrow> string option \<Rightarrow> pyexn + pydict" where
  "s3_response result pres_id presigned_url =
     (case getitem result ''s3_url'' of Inl e \<Rightarrow> Inl e | Inr s3_url \<Rightarrow>
      case getitem result ''https_url'' of Inl e \<Rightarrow> Inl e | Inr https_url \<Rightarrow>
      case getitem result ''bucket'' of Inl e \<Rightarrow> Inl e | Inr bucket \<Rightarrow>
      case getitem result ''key'' of Inl e \<Rightarrow> Inl e | Inr key \<Rightarrow>
      case getitem result ''filename'' of Inl e \<Rightarrow> Inl e | Inr filename \<Rightarrow>
        (let message = ''Presentation saved to S3: '' @ str_pyval s3_url;
             response = [(''success'', PBool True),
                         (''message'', PStr message),
                         (''storage_type'', PStr ''s3''),
                         (''s3_url'', s3_url),
                         (''https_url'', https_url),
                         (''bucket'', bucket),
                         (''key'', key),
                         (''filename'', filename),
                         (''presentation_id'', PStr pres_id)]
         in Inr (if truthy_opt presigned_url then
                   AList.update ''message''
                     (PStr (message @ [CHR 0x0A, CHR 0x0A]
                            @ ''Temporary download URL (expires in 1 hour):'' @ [CHR 0x0A]
                            @ fmt_opt presigned_url))
                     (AList.update ''presigned_url_expires'' (PStr ''1 hour'')
                       (AList.update ''presigned_url'' (PStr (fmt_opt presigned_url)) response))
                 else response)))"

text \<open>The body of the \<open>try\<close> block of \<open>save_presentation\<close>.\<close>

definition save_try ::
  "world \<Rightarrow> string \<Rightarrow> string \<Rightarrow> presentation \<Rightarrow> state \<Rightarrow> (pyexn + pydict) \<times> state" where
  "save_try w file_path pres_id pres st =
     (case get_s3_handler w st of
        (Inl e, st1) \<Rightarrow> (Inl e, st1)
      | (Inr s3_handler, st1) \<Rightarrow>
          if s3_enabled s3_handler then
            (let filename = basename file_path
             in case upload_presentation w s3_handler pres filename st1 of
                  (Inl e, st2) \<Rightarrow> (Inl e, st2)
                | (Inr result, st2) \<Rightarrow>
                    (case getitem result ''success'' of
                       Inl e \<Rightarrow> (Inl e, st2)
                     | Inr ok \<Rightarrow>
                         if truthy ok then
                           (case getitem result ''key'' of
                              Inl e \<Rightarrow> (Inl e, st2)
                            | Inr key \<Rightarrow>
                                (case generate_presigned_url w s3_handler (str_pyval key) 3600 st2 of
                                   (Inl e, st3) \<Rightarrow> (Inl e, st3)
                                 | (Inr presigned_url, st3) \<Rightarrow>
                                     (s3_response result pres_id presigned_url, st3)))
                         else
                           (Inr [(''success'', PBool False),
                                 (''storage_type'', PStr ''s3''),
                                 (''error'', dict_get result ''error''
                                               (PStr ''Failed to upload to S3''))], st2)))
          else
            (let st2 = log_event (LocalSave pres file_path) st1
             in case ppt_save_presentation w pres file_path of
                  Inl e \<Rightarrow> (Inl e, st2)
                | Inr saved_path \<Rightarrow>
                    (Inr [(''success'', PBool True),
                          (''message'', PStr (''Presentation saved to local file: '' @ saved_path)),
                          (''storage_type'', PStr ''local''),
                          (''file_path'', PStr saved_path),
                          (''presentation_id'', PStr pres_id)], st2)))"

text \<open>\<open>except ValueError\<close> first, then \<open>except Exception\<close>.\<close>

fun save_except :: "pyexn \<Rightarrow> pydict" where
  "save_except (ValueError m) =
     [(''success'', PBool False),
      (''error'', PStr (''Configuration error: '' @ m
                        @ ''. Please check your S3 environment variables.''))]"
| "save_except e =
     [(''success'', PBool False),
      (''error'', PStr (''Failed to save presentation: '' @ str_exn e))]"

definition save_presentation ::
  "world \<Rightarrow> string \<Rightarrow> string option \<Rightarrow> state \<Rightarrow> (pyexn + pydict) \<times> state" where
  "save_presentation w file_path presentation_id st =
     (case resolve_pres_id w presentation_id of
        Inl e \<Rightarrow> (Inl e, st)
      | Inr pres_id \<Rightarrow>
          (case lookup_presentation pres_id (presentations st) of
             None \<Rightarrow>
               (Inr [(''success'', PBool False),
                     (''error'', PStr ''No presentation is currently loaded or the specified ID is invalid'')],
                st)
           | Some (k, pres) \<Rightarrow>
               (case save_try w file_path k pres st of
                  (Inl e, st1) \<Rightarrow> (Inr (save_except e), st1)
                | (Inr response, st1) \<Rightarrow> (Inr response, st1))))"

definition get_storage_mode :: "world \<Rightarrow> state \<Rightarrow> (pyexn + pydict) \<times> state" where
  "get_storage_mode w st =
     (case get_s3_handler w st of
        (Inl e, st1) \<Rightarrow>
          (Inr [(''success'', PBool False),
                (''error'', PStr (''Failed to get storage mode: '' @ str_exn e))], st1)
      | (Inr s3_handler, st1) \<Rightarrow>
          if s3_enabled s3_handler then
            (Inr [(''success'', PBool True),
                  (''storage_mode'', PStr ''s3''),
                  (''s3_bucket'', pyval_of_opt (s3_bucket s3_handler)),
                  (''s3_prefix'', PStr (s3_prefix s3_handler)),
                  (''s3_region'', PStr (s3_region s3_handler)),
                  (''message'', PStr ''S3 storage is ENABLED - presentations will be saved to S3'')],
             st1)
          else
            (Inr [(''success'', PBool True),
                  (''storage_mode'', PStr ''local''),
                  (''message'', PStr ''Local storage is active - presentations will be saved to local file system'')],
             st1))"

section \<open>Concrete configurations\<close>

text \<open>Two documents, three environments and the collaborators' answers used as examples.\<close>

definition deck :: presentation where
  "deck = Presentation 1 0 11"

definition other_deck :: presentation where
  "other_deck = Presentation 2 3 11"

definition env_remote :: environ where
  "env_remote = [''S3_ENABLED'' \<mapsto> ''true'', ''S3_BUCKET_NAME'' \<mapsto> ''demo-bucket'',
                 ''S3_PREFIX'' \<mapsto> ''presentations/'']"

definition env_no_bucket :: environ where
  "env_no_bucket = [''S3_ENABLED'' \<mapsto> ''TRUE'']"

definition env_local :: environ where
  "env_local = Map.empty"

text \<open>Every collaborator succeeds, except that signing fails with a \<open>ClientError\<close>.\<close>

definition unsigned_world :: "environ \<Rightarrow> world" where
  "unsigned_world env =
     \<lparr>os_environ = env, boto3_client = None, prs_save = (\<lambda>p. None),
      upload_fileobj = (\<lambda>b k. None),
      client_generate_presigned_url = (\<lambda>b k n. Inl (ClientError ''AccessDenied'')),
      ppt_create_presentation = Inr deck,
      ppt_open_presentation = (\<lambda>f. Inr other_deck),
      ppt_save_presentation = (\<lambda>p f. Inr f),
      path_exists = (\<lambda>f. True),
      get_current_presentation_id = Inr None\<rparr>"

text \<open>Every collaborator succeeds.\<close>

definition signed_world :: "environ \<Rightarrow> world" where
  "signed_world env =
     (unsigned_world env)\<lparr>client_generate_presigned_url := (\<lambda>b k n. Inr (''https://signed/'' @ k))\<rparr>"

text \<open>The document library cannot build a blank document.\<close>

definition broken_library_world :: world where
  "broken_library_world =
     (unsigned_world env_local)\<lparr>ppt_create_presentation := Inl (OtherException ''Package not found'')\<rparr>"

definition empty_state :: state where
  "empty_state = \<lparr>presentations = [], s3_handler_global = None, trace = []\<rparr>"

definition one_deck_state :: state where
  "one_deck_state = \<lparr>presentations = [(''deck'', deck)], s3_handler_global = None, trace = []\<rparr>"

text \<open>A registry whose only entry the caller stored under the name \<open>presentation_2\<close>.\<close>

definition taken_id_state :: state where
  "taken_id_state =
     \<lparr>presentations = [(''presentation_2'', other_deck)], s3_handler_global = None, trace = []\<rparr>"

definition demo_handler :: S3Handler where
  "demo_handler =
     \<lparr>s3_enabled = True, s3_bucket = Some ''demo-bucket'', s3_prefix = ''presentations/'',
      s3_region = ''us-east-1'', s3_client = Some (S3Client None None ''us-east-1'')\<rparr>"

definition local_handler :: S3Handler where
  "local_handler =
     \<lparr>s3_enabled = False, s3_bucket = None, s3_prefix = ''presentations/'',
      s3_region = ''us-east-1'', s3_client = None\<rparr>"

section \<open>Strings: auxiliary facts\<close>

lemma endswith_iff: "endswith s suf \<longleftrightarrow> (\<exists>ys. s = ys @ suf)"
proof
  assume "endswith s suf"
  then have "s = take (length s - length suf) s @ suf"
    by (metis append_take_drop_id endswith_def)
  then show "\<exists>ys. s = ys @ suf" ..
next
  assume "\<exists>ys. s = ys @ suf"
  then show "endswith s suf" by (auto simp: endswith_def)
qed

lemma endswith_append_same: "endswith (s @ suf) suf"
  by (simp add: endswith_def)

lemma endswith_trans: "endswith s t \<Longrightarrow> endswith t u \<Longrightarrow> endswith s u"
  by (auto simp: endswith_iff)

lemma endswith_ensure_pptx: "endswith (ensure_pptx name) ''.pptx''"
  by (simp add: ensure_pptx_def endswith_append_same)

lemma ensure_pptx_double:
  "endswith (ensure_pptx name) ''.pptx.pptx'' \<longleftrightarrow> endswith name ''.pptx.pptx''"
proof (cases "endswith name ''.pptx''")
  case True
  then show ?thesis by (simp add: ensure_pptx_def)
next
  case False
  have a: "\<not> endswith name ''.pptx.pptx''"
  proof
    assume "endswith name ''.pptx.pptx''"
    moreover have "endswith ''.pptx.pptx'' ''.pptx''" by (simp add: endswith_def)
    ultimately show False using False endswith_trans by blast
  qed
  have b: "\<not> endswith (name @ ''.pptx'') ''.pptx.pptx''"
  proof
    assume "endswith (name @ ''.pptx'') ''.pptx.pptx''"
    then obtain ys where "name @ ''.pptx'' = ys @ ''.pptx.pptx''"
      by (auto simp: endswith_iff)
    then have "name @ ''.pptx'' = (ys @ ''.pptx'') @ ''.pptx''" by simp
    then have "name = ys @ ''.pptx''" by (simp only: append_same_eq)
    then show False using False by (auto simp: endswith_iff)
  qed
  show ?thesis using False a b by (simp add: ensure_pptx_def)
qed

lemma rstrip_idem: "rstrip cs (rstrip cs s) = rstrip cs s"
  by (simp add: rstrip_def dropWhile_idem)

lemma rstrip_decompose:
  "s = rstrip cs s @ rev (takeWhile (\<lambda>c. c \<in> set cs) (rev s))"
proof -
  let ?P = "\<lambda>c. c \<in> set cs"
  have "rev (dropWhile ?P (rev s)) @ rev (takeWhile ?P (rev s))
        = rev (takeWhile ?P (rev s) @ dropWhile ?P (rev s))"
    by (simp only: rev_append)
  also have "\<dots> = s"
    by (simp only: takeWhile_dropWhile_id rev_rev_ident)
  finally show ?thesis by (simp only: rstrip_def)
qed

lemma takeWhile_single: "takeWhile (\<lambda>c. c \<in> set [a]) xs = replicate (length (takeWhile (\<lambda>c. c \<in> set [a]) xs)) a"
  by (induction xs) auto

lemma rstrip_slash_decompose: "\<exists>n. s = rstrip ''/'' s @ replicate n CHR ''/''"
proof -
  let ?t = "takeWhile (\<lambda>c. c \<in> set ''/'') (rev s)"
  have "?t = replicate (length ?t) CHR ''/''" by (rule takeWhile_single)
  then have "rev ?t = replicate (length ?t) CHR ''/''" by (metis rev_replicate)
  then have "s = rstrip ''/'' s @ replicate (length ?t) CHR ''/''"
    using rstrip_decompose [of s "''/''"] by simp
  then show ?thesis ..
qed

lemma rstrip_not_endswith: "\<not> endswith (rstrip ''/'' s) ''/''"
proof
  assume "endswith (rstrip ''/'' s) ''/''"
  then obtain ys where "rstrip ''/'' s = ys @ ''/''" by (auto simp: endswith_iff)
  then have "dropWhile (\<lambda>c. c \<in> set ''/'') (rev s) = CHR ''/'' # rev ys"
    by (metis rev_eq_Cons_iff rev_rev_ident rstrip_def append_Nil rev.simps  rev_append)
  then show False by (metis dropWhile_eq_Cons_conv list.set_intros(1))
qed

lemma rstrip_unchanged: "\<not> endswith s ''/'' \<Longrightarrow> rstrip ''/'' s = s"
proof (cases "rev s")
  case Nil
  then show ?thesis by (simp add: rstrip_def)
next
  case (Cons c cs)
  assume ne: "\<not> endswith s ''/''"
  from Cons have s: "s = rev cs @ [c]" by (metis rev.simps(2) rev_rev_ident)
  with ne have "c \<noteq> CHR ''/''" by (auto simp: endswith_iff)
  then show ?thesis using Cons s by (simp add: rstrip_def)
qed

lemma takeWhile_rev_all: "\<forall>c \<in> set p. P c \<Longrightarrow> takeWhile P (rev p) = rev p"
  by (simp add: takeWhile_eq_all_conv)

lemma basename_id: "CHR ''/'' \<notin> set p \<Longrightarrow> basename p = p"
proof -
  assume "CHR ''/'' \<notin> set p"
  then have "\<forall>c \<in> set p. c \<noteq> CHR ''/''" by auto
  then have "takeWhile (\<lambda>c. c \<noteq> CHR ''/'') (rev p) = rev p"
    by (rule takeWhile_rev_all)
  then show ?thesis by (simp only: basename_def rev_rev_ident)
qed

lemma basename_append_slash: "basename (xs @ ''/'' @ ys) = basename ys"
proof (cases "\<forall>c \<in> set ys. c \<noteq> CHR ''/''")
  case True
  then have all: "takeWhile (\<lambda>c. c \<noteq> CHR ''/'') (rev ys) = rev ys"
    by (rule takeWhile_rev_all)
  from True have "takeWhile (\<lambda>c. c \<noteq> CHR ''/'') (rev ys @ CHR ''/'' # rev xs)
             = rev ys @ takeWhile (\<lambda>c. c \<noteq> CHR ''/'') (CHR ''/'' # rev xs)"
    by (intro takeWhile_append2) simp
  then have "takeWhile (\<lambda>c. c \<noteq> CHR ''/'') (rev (xs @ ''/'' @ ys)) = rev ys"
    by simp
  then show ?thesis by (simp only: basename_def all)
next
  case False
  then show ?thesis by (auto simp: basename_def takeWhile_append1)
qed

lemma basename_no_slash: "CHR ''/'' \<notin> set (basename p)"
  unfolding basename_def using set_takeWhileD by fastforce

lemma ensure_pptx_no_slash: "CHR ''/'' \<notin> set p \<Longrightarrow> CHR ''/'' \<notin> set (ensure_pptx p)"
  by (simp add: ensure_pptx_def)

section \<open>Effects of the operations: auxiliary facts\<close>

lemma trace_log_event [simp]: "trace (log_event ev st) = trace st @ [ev]"
  and presentations_log_event [simp]: "presentations (log_event ev st) = presentations st"
  and handler_log_event [simp]: "s3_handler_global (log_event ev st) = s3_handler_global st"
  by (simp_all add: log_event_def)

lemma S3Handler_init_effects:
  assumes "S3Handler_init w st = (r, st1)"
  shows "filter is_local_write (trace st1) = filter is_local_write (trace st)"
    and "presentations st1 = presentations st"
    and "s3_handler_global st1 = s3_handler_global st"
    and "filter is_config_read (trace st1) = filter is_config_read (trace st) @ [ReadConfig]"
  using assms
  by (auto simp: S3Handler_init_def Let_def split: if_splits option.splits)

lemma S3Handler_init_postcondition:
  assumes "S3Handler_init w st = (Inr h, st1)"
  shows "if s3_enabled h then truthy_opt (s3_bucket h) \<and> s3_client h \<noteq> None
         else s3_client h = None \<and> filter is_remote_op (trace st1) = filter is_remote_op (trace st)"
  using assms
  by (auto simp: S3Handler_init_def Let_def split: if_splits option.splits)

lemma get_s3_handler_effects:
  assumes "get_s3_handler w st = (r, st1)"
  shows "filter is_local_write (trace st1) = filter is_local_write (trace st)"
    and "presentations st1 = presentations st"
proof -
  show "filter is_local_write (trace st1) = filter is_local_write (trace st)"
    using assms
    by (auto simp: get_s3_handler_def split: option.splits prod.splits sum.splits
             dest: S3Handler_init_effects(1))
  show "presentations st1 = presentations st"
    using assms
    by (auto simp: get_s3_handler_def split: option.splits prod.splits sum.splits
             dest: S3Handler_init_effects(2))
qed

lemma upload_presentation_effects:
  assumes "upload_presentation w h prs filename st = (r, st1)"
  shows "filter is_local_write (trace st1) = filter is_local_write (trace st)"
    and "presentations st1 = presentations st"
    and "s3_handler_global st1 = s3_handler_global st"
  using assms
  by (auto simp: upload_presentation_def Let_def split: if_splits option.splits)

lemma generate_presigned_url_effects:
  assumes "generate_presigned_url w h key n st = (r, st1)"
  shows "filter is_local_write (trace st1) = filter is_local_write (trace st)"
    and "presentations st1 = presentations st"
    and "s3_handler_global st1 = s3_handler_global st"
  using assms
  by (auto simp: generate_presigned_url_def Let_def split: if_splits option.splits sum.splits)

lemma upload_except_Inr:
  "upload_except e = Inr d \<longleftrightarrow>
     (\<exists>m. e = ClientError m \<and>
          d = [(''success'', PBool False), (''error'', PStr (''Failed to upload to S3: '' @ m))])"
  by (cases e) auto

lemma upload_presentation_success:
  assumes "upload_presentation w h prs filename st = (Inr result, st1)"
    and "map_of result ''success'' = Some v" and "truthy v"
  shows "result =
     [(''success'', PBool True),
      (''s3_url'', PStr (''s3://'' @ fmt_opt (s3_bucket h) @ ''/''
                         @ make_s3_key (s3_prefix h) (ensure_pptx filename))),
      (''https_url'', PStr (''https://'' @ fmt_opt (s3_bucket h) @ ''.s3.'' @ s3_region h
                            @ ''.amazonaws.com/'' @ make_s3_key (s3_prefix h) (ensure_pptx filename))),
      (''bucket'', pyval_of_opt (s3_bucket h)),
      (''key'', PStr (make_s3_key (s3_prefix h) (ensure_pptx filename))),
      (''filename'', PStr (ensure_pptx filename))]"
  using assms
  by (auto simp: upload_presentation_def Let_def upload_except_Inr
           split: if_splits option.splits)

lemma upload_presentation_has_success:
  assumes "upload_presentation w h prs filename st = (Inr result, st1)"
  shows "\<exists>b. map_of result ''success'' = Some (PBool b)"
  using assms
  by (auto simp: upload_presentation_def Let_def upload_except_Inr
           split: if_splits option.splits)

lemma upload_presentation_ok:
  assumes "s3_enabled h" and "s3_client h = Some c" and "prs_save w prs = None"
    and "upload_fileobj w (s3_bucket h) (make_s3_key (s3_prefix h) (ensure_pptx filename)) = None"
  shows "upload_presentation w h prs filename st =
     (Inr [(''success'', PBool True),
      (''s3_url'', PStr (''s3://'' @ fmt_opt (s3_bucket h) @ ''/''
                         @ make_s3_key (s3_prefix h) (ensure_pptx filename))),
      (''https_url'', PStr (''https://'' @ fmt_opt (s3_bucket h) @ ''.s3.'' @ s3_region h
                            @ ''.amazonaws.com/'' @ make_s3_key (s3_prefix h) (ensure_pptx filename))),
      (''bucket'', pyval_of_opt (s3_bucket h)),
      (''key'', PStr (make_s3_key (s3_prefix h) (ensure_pptx filename))),
      (''filename'', PStr (ensure_pptx filename))],
      log_event (S3Upload (s3_bucket h) (make_s3_key (s3_prefix h) (ensure_pptx filename)))
        (log_event (SerializeToBuffer prs) st))"
  using assms by (simp add: upload_presentation_def Let_def)

lemma save_try_remote_local_writes:
  assumes "get_s3_handler w st = (Inr h, st1)" and "s3_enabled h"
    and "save_try w fp k pres st = (r, st')"
  shows "filter is_local_write (trace st') = filter is_local_write (trace st)"
proof -
  have a: "filter is_local_write (trace st1) = filter is_local_write (trace st)"
    using assms(1) by (rule get_s3_handler_effects(1))
  obtain ur st2 where up: "upload_presentation w h pres (basename fp) st1 = (ur, st2)"
    by (cases "upload_presentation w h pres (basename fp) st1")
  have b: "filter is_local_write (trace st2) = filter is_local_write (trace st1)"
    using up by (rule upload_presentation_effects(1))
  show ?thesis
  proof (cases ur)
    case (Inl e)
    with assms up have "st' = st2" by (simp add: save_try_def)
    with a b show ?thesis by simp
  next
    case (Inr result)
    show ?thesis
    proof (cases "getitem result ''success''")
      case (Inl e)
      with assms up Inr have "st' = st2" by (simp add: save_try_def)
      with a b show ?thesis by simp
    next
      case ok: (Inr okv)
      show ?thesis
      proof (cases "truthy okv")
        case False
        with assms up Inr ok have "st' = st2" by (simp add: save_try_def)
        with a b show ?thesis by simp
      next
        case True
        show ?thesis
        proof (cases "getitem result ''key''")
          case (Inl e)
          with assms up Inr ok True have "st' = st2" by (simp add: save_try_def)
          with a b show ?thesis by simp
        next
          case key: (Inr keyv)
          obtain pr st3 where pre:
            "generate_presigned_url w h (str_pyval keyv) 3600 st2 = (pr, st3)"
            by (cases "generate_presigned_url w h (str_pyval keyv) 3600 st2")
          have c: "filter is_local_write (trace st3) = filter is_local_write (trace st2)"
            using pre by (rule generate_presigned_url_effects(1))
          from assms up Inr ok True key pre have "st' = st3"
            by (cases pr) (simp_all add: save_try_def)
          with a b c show ?thesis by simp
        qed
      qed
    qed
  qed
qed


lemma s3_response_copies:
  assumes "map_of result ''s3_url'' = Some a" and "map_of result ''https_url'' = Some b"
    and "map_of result ''bucket'' = Some c" and "map_of result ''key'' = Some d"
    and "map_of result ''filename'' = Some e"
  shows "s3_response result k u =
     Inr (if truthy_opt u then
            [(''success'', PBool True),
             (''message'', PStr (''Presentation saved to S3: '' @ str_pyval a
                @ [CHR 0x0A, CHR 0x0A] @ ''Temporary download URL (expires in 1 hour):''
                @ [CHR 0x0A] @ fmt_opt u)),
             (''storage_type'', PStr ''s3''), (''s3_url'', a), (''https_url'', b),
             (''bucket'', c), (''key'', d), (''filename'', e), (''presentation_id'', PStr k),
             (''presigned_url'', PStr (fmt_opt u)), (''presigned_url_expires'', PStr ''1 hour'')]
          else
            [(''success'', PBool True),
             (''message'', PStr (''Presentation saved to S3: '' @ str_pyval a)),
             (''storage_type'', PStr ''s3''), (''s3_url'', a), (''https_url'', b),
             (''bucket'', c), (''key'', d), (''filename'', e), (''presentation_id'', PStr k)])"
  using assms by (simp add: s3_response_def getitem_def Let_def)

lemma save_except_success: "map_of (save_except e) ''success'' = Some (PBool False)"
  by (cases e) simp_all

lemma save_try_remote_success:
  assumes "get_s3_handler w st = (Inr h, st1)" and "s3_enabled h"
    and "save_try w fp k pres st = (Inr d, st')"
    and "map_of d ''success'' = Some (PBool True)"
  shows "\<exists>u. Inr d = s3_response
     [(''success'', PBool True),
      (''s3_url'', PStr (''s3://'' @ fmt_opt (s3_bucket h) @ ''/''
                         @ make_s3_key (s3_prefix h) (ensure_pptx (basename fp)))),
      (''https_url'', PStr (''https://'' @ fmt_opt (s3_bucket h) @ ''.s3.'' @ s3_region h
                            @ ''.amazonaws.com/'' @ make_s3_key (s3_prefix h) (ensure_pptx (basename fp)))),
      (''bucket'', pyval_of_opt (s3_bucket h)),
      (''key'', PStr (make_s3_key (s3_prefix h) (ensure_pptx (basename fp)))),
      (''filename'', PStr (ensure_pptx (basename fp)))] k u"
proof -
  obtain ur st2 where up: "upload_presentation w h pres (basename fp) st1 = (ur, st2)"
    by (cases "upload_presentation w h pres (basename fp) st1")
  show ?thesis
  proof (cases ur)
    case (Inl e)
    with assms up show ?thesis by (simp add: save_try_def)
  next
    case (Inr result)
    then obtain b where b: "map_of result ''success'' = Some (PBool b)"
      using up upload_presentation_has_success by blast
    show ?thesis
    proof (cases b)
      case False
      with assms up Inr b show ?thesis by (auto simp add: save_try_def getitem_def)
    next
      case True
      with up Inr b have res: "result =
         [(''success'', PBool True),
          (''s3_url'', PStr (''s3://'' @ fmt_opt (s3_bucket h) @ ''/''
                             @ make_s3_key (s3_prefix h) (ensure_pptx (basename fp)))),
          (''https_url'', PStr (''https://'' @ fmt_opt (s3_bucket h) @ ''.s3.'' @ s3_region h
                                @ ''.amazonaws.com/'' @ make_s3_key (s3_prefix h) (ensure_pptx (basename fp)))),
          (''bucket'', pyval_of_opt (s3_bucket h)),
          (''key'', PStr (make_s3_key (s3_prefix h) (ensure_pptx (basename fp)))),
          (''filename'', PStr (ensure_pptx (basename fp)))]"
        using upload_presentation_success [of w h pres "basename fp" st1 result st2 "PBool True"]
        by simp
      obtain pr st3 where pre:
        "generate_presigned_url w h (make_s3_key (s3_prefix h) (ensure_pptx (basename fp))) 3600 st2 = (pr, st3)"
        by (cases "generate_presigned_url w h (make_s3_key (s3_prefix h) (ensure_pptx (basename fp))) 3600 st2")
      show ?thesis
      proof (cases pr)
        case (Inl e)
        with assms up Inr res pre show ?thesis by (simp add: save_try_def getitem_def)
      next
        case pu: (Inr u)
        with assms up Inr pre have "Inr d = s3_response result k u"
          by (simp add: save_try_def getitem_def res)
        with res show ?thesis by blast
      qed
    qed
  qed
qed

lemmas string_defs = lower_def lower_char_def getenv_def getenv_default_def endswith_def
  rstrip_def basename_def ensure_pptx_def make_s3_key_def

lemmas example_defs = deck_def other_deck_def env_remote_def env_no_bucket_def env_local_def
  unsigned_world_def signed_world_def broken_library_world_def empty_state_def
  one_deck_state_def taken_id_state_def demo_handler_def local_handler_def

section \<open>The key prefix\<close>

text \<open>
  C5, as stated: the normalisation of the prefix removes exactly one trailing separator, so
  that \<open>"decks//"\<close> becomes \<open>"decks/"\<close>. The code calls \<open>rstrip('/')\<close>, which removes all of
  them: \<open>"decks//"\<close> becomes \<open>"decks"\<close>, and the key built from it has one separator.
\<close>

theorem normalize_strips_more_than_one_counterexample:
  "rstrip ''/'' ''decks//'' = ''decks'' \<and> rstrip ''/'' ''decks//'' \<noteq> ''decks/''
   \<and> make_s3_key ''decks//'' ''q3.pptx'' = ''decks/q3.pptx''"
  by (simp add: rstrip_def make_s3_key_def)

text \<open>
  C5, amended: the normalisation removes every trailing separator. The prefix is the
  normalised prefix followed by separators only, the normalised prefix does not end with a
  separator, a prefix without a trailing separator is unchanged, and a prefix with exactly
  one trailing separator loses exactly that one.
\<close>

theorem normalize_strips_all_trailing_separators:
  "(\<exists>n. p = rstrip ''/'' p @ replicate n CHR ''/'')
   \<and> \<not> endswith (rstrip ''/'' p) ''/''
   \<and> (\<not> endswith p ''/'' \<longrightarrow> rstrip ''/'' p = p)
   \<and> (endswith p ''/'' \<and> \<not> endswith p ''//'' \<longrightarrow> rstrip ''/'' p = butlast p)
   \<and> make_s3_key p filename = rstrip ''/'' p @ ''/'' @ filename"
proof -
  have one: "rstrip ''/'' p = butlast p" if e: "endswith p ''/''" and ne: "\<not> endswith p ''//''"
  proof -
    from e obtain q where q: "p = q @ ''/''" by (auto simp: endswith_iff)
    have "\<not> endswith q ''/''"
    proof
      assume "endswith q ''/''"
      then obtain r where "q = r @ ''/''" by (auto simp: endswith_iff)
      with q have "p = r @ ''//''" by simp
      with ne show False by (auto simp: endswith_iff)
    qed
    then have "rstrip ''/'' q = q" by (rule rstrip_unchanged)
    moreover have "rstrip ''/'' (q @ ''/'') = rstrip ''/'' q" by (simp add: rstrip_def)
    ultimately show ?thesis using q by simp
  qed
  show ?thesis
    using rstrip_slash_decompose [of p] rstrip_not_endswith [of p] rstrip_unchanged [of p] one
    by (simp add: make_s3_key_def)
qed

theorem normalize_strips_all_trailing_separators_witness:
  "\<not> endswith ''decks'' ''/'' \<and> rstrip ''/'' ''decks'' = ''decks''
   \<and> endswith ''decks/'' ''/'' \<and> \<not> endswith ''decks/'' ''//''
   \<and> rstrip ''/'' ''decks/'' = butlast ''decks/''
   \<and> \<not> endswith (rstrip ''/'' ''decks//'') ''/''"
  using normalize_strips_all_trailing_separators [of "''decks''" "''q3.pptx''"]
    normalize_strips_all_trailing_separators [of "''decks/''" "''q3.pptx''"]
    normalize_strips_all_trailing_separators [of "''decks//''" "''q3.pptx''"]
  by (simp add: endswith_def)

text \<open>
  C6: the normalisation of the prefix is idempotent, and so a prefix normalised beforehand
  gives the same key.
\<close>

theorem normalize_idempotent:
  "rstrip ''/'' (rstrip ''/'' p) = rstrip ''/'' p
   \<and> make_s3_key (rstrip ''/'' p) filename = make_s3_key p filename"
  by (simp add: make_s3_key_def rstrip_idem)

section \<open>The file name in remote storage\<close>

text \<open>
  C4, as stated: the stored file name never ends with \<open>.pptx.pptx\<close>. The code appends the
  extension only when it is missing and removes nothing, so a name that already ends with
  \<open>.pptx.pptx\<close> is stored as it is.
\<close>

theorem double_extension_kept_counterexample:
  "fst (upload_presentation (unsigned_world env_remote) demo_handler deck ''deck.pptx.pptx''
          empty_state) =
     Inr [(''success'', PBool True),
          (''s3_url'', PStr ''s3://demo-bucket/presentations/deck.pptx.pptx''),
          (''https_url'',
           PStr ''https://demo-bucket.s3.us-east-1.amazonaws.com/presentations/deck.pptx.pptx''),
          (''bucket'', PStr ''demo-bucket''),
          (''key'', PStr ''presentations/deck.pptx.pptx''),
          (''filename'', PStr ''deck.pptx.pptx'')]
   \<and> endswith ''deck.pptx.pptx'' ''.pptx.pptx''"
  by (simp add: example_defs string_defs upload_presentation_def log_event_def Let_def)

text \<open>
  C4, amended: for every input name, the file name of a successful upload (the
  \<open>filename\<close> field, which is also what follows the normalised prefix in the key and
  names the same last key segment) ends with \<open>.pptx\<close>; a name that already ends with
  \<open>.pptx\<close> is kept as it is, any other name gets \<open>.pptx\<close> appended once; and the stored name
  ends with \<open>.pptx.pptx\<close> exactly when the input name already did.
\<close>

theorem upload_filename_extension:
  "\<forall>result st1.
     upload_presentation w self prs filename st = (Inr result, st1)
       \<and> map_of result ''success'' = Some (PBool True) \<longrightarrow>
     map_of result ''filename'' = Some (PStr (ensure_pptx filename))
     \<and> map_of result ''key'' =
         Some (PStr (rstrip ''/'' (s3_prefix self) @ ''/'' @ ensure_pptx filename))
     \<and> basename (rstrip ''/'' (s3_prefix self) @ ''/'' @ ensure_pptx filename)
         = basename (ensure_pptx filename)
     \<and> endswith (ensure_pptx filename) ''.pptx''
     \<and> (endswith filename ''.pptx'' \<longrightarrow> ensure_pptx filename = filename)
     \<and> (\<not> endswith filename ''.pptx'' \<longrightarrow> ensure_pptx filename = filename @ ''.pptx'')
     \<and> (endswith (ensure_pptx filename) ''.pptx.pptx'' \<longleftrightarrow> endswith filename ''.pptx.pptx'')"
proof (intro allI impI, elim conjE)
  fix result st1
  assume up: "upload_presentation w self prs filename st = (Inr result, st1)"
    and ok: "map_of result ''success'' = Some (PBool True)"
  have res: "result =
     [(''success'', PBool True),
      (''s3_url'', PStr (''s3://'' @ fmt_opt (s3_bucket self) @ ''/''
                         @ make_s3_key (s3_prefix self) (ensure_pptx filename))),
      (''https_url'', PStr (''https://'' @ fmt_opt (s3_bucket self) @ ''.s3.'' @ s3_region self
                            @ ''.amazonaws.com/''
                            @ make_s3_key (s3_prefix self) (ensure_pptx filename))),
      (''bucket'', pyval_of_opt (s3_bucket self)),
      (''key'', PStr (make_s3_key (s3_prefix self) (ensure_pptx filename))),
      (''filename'', PStr (ensure_pptx filename))]"
    using upload_presentation_success [OF up ok] by simp
  have f: "map_of result ''filename'' = Some (PStr (ensure_pptx filename))"
    by (simp add: res)
  have k: "map_of result ''key'' =
      Some (PStr (rstrip ''/'' (s3_prefix self) @ ''/'' @ ensure_pptx filename))"
    by (simp add: res make_s3_key_def)
  have e: "endswith filename ''.pptx'' \<longrightarrow> ensure_pptx filename = filename"
    and n: "\<not> endswith filename ''.pptx'' \<longrightarrow> ensure_pptx filename = filename @ ''.pptx''"
    by (simp_all add: ensure_pptx_def)
  show "map_of result ''filename'' = Some (PStr (ensure_pptx filename))
     \<and> map_of result ''key'' =
         Some (PStr (rstrip ''/'' (s3_prefix self) @ ''/'' @ ensure_pptx filename))
     \<and> basename (rstrip ''/'' (s3_prefix self) @ ''/'' @ ensure_pptx filename)
         = basename (ensure_pptx filename)
     \<and> endswith (ensure_pptx filename) ''.pptx''
     \<and> (endswith filename ''.pptx'' \<longrightarrow> ensure_pptx filename = filename)
     \<and> (\<not> endswith filename ''.pptx'' \<longrightarrow> ensure_pptx filename = filename @ ''.pptx'')
     \<and> (endswith (ensure_pptx filename) ''.pptx.pptx'' \<longleftrightarrow> endswith filename ''.pptx.pptx'')"
    using f k e n basename_append_slash endswith_ensure_pptx ensure_pptx_double by blast
qed

theorem upload_filename_extension_witness:
  "upload_presentation (unsigned_world env_remote) demo_handler deck ''report'' empty_state =
     (Inr [(''success'', PBool True),
           (''s3_url'', PStr ''s3://demo-bucket/presentations/report.pptx''),
           (''https_url'',
            PStr ''https://demo-bucket.s3.us-east-1.amazonaws.com/presentations/report.pptx''),
           (''bucket'', PStr ''demo-bucket''),
           (''key'', PStr ''presentations/report.pptx''),
           (''filename'', PStr ''report.pptx'')],
      empty_state\<lparr>trace := [SerializeToBuffer deck,
                              S3Upload (Some ''demo-bucket'') ''presentations/report.pptx'']\<rparr>)
   \<and> \<not> endswith ''report'' ''.pptx''
   \<and> ensure_pptx ''report'' = ''report.pptx''
   \<and> endswith ''q3.pptx'' ''.pptx''
   \<and> ensure_pptx ''q3.pptx'' = ''q3.pptx''
   \<and> \<not> endswith (ensure_pptx ''report'') ''.pptx.pptx''"
proof -
  have run: "upload_presentation (unsigned_world env_remote) demo_handler deck ''report'' empty_state =
     (Inr [(''success'', PBool True),
           (''s3_url'', PStr ''s3://demo-bucket/presentations/report.pptx''),
           (''https_url'',
            PStr ''https://demo-bucket.s3.us-east-1.amazonaws.com/presentations/report.pptx''),
           (''bucket'', PStr ''demo-bucket''),
           (''key'', PStr ''presentations/report.pptx''),
           (''filename'', PStr ''report.pptx'')],
      empty_state\<lparr>trace := [SerializeToBuffer deck,
                              S3Upload (Some ''demo-bucket'') ''presentations/report.pptx'']\<rparr>)"
    by (simp add: example_defs string_defs upload_presentation_def log_event_def Let_def)
  have run2: "upload_presentation (unsigned_world env_remote) demo_handler deck ''q3.pptx'' empty_state =
     (Inr [(''success'', PBool True),
           (''s3_url'', PStr ''s3://demo-bucket/presentations/q3.pptx''),
           (''https_url'',
            PStr ''https://demo-bucket.s3.us-east-1.amazonaws.com/presentations/q3.pptx''),
           (''bucket'', PStr ''demo-bucket''),
           (''key'', PStr ''presentations/q3.pptx''),
           (''filename'', PStr ''q3.pptx'')],
      empty_state\<lparr>trace := [SerializeToBuffer deck,
                              S3Upload (Some ''demo-bucket'') ''presentations/q3.pptx'']\<rparr>)"
    by (simp add: example_defs string_defs upload_presentation_def log_event_def Let_def)
  have ok: "map_of [(''success'', PBool True),
           (''s3_url'', PStr ''s3://demo-bucket/presentations/report.pptx''),
           (''https_url'',
            PStr ''https://demo-bucket.s3.us-east-1.amazonaws.com/presentations/report.pptx''),
           (''bucket'', PStr ''demo-bucket''),
           (''key'', PStr ''presentations/report.pptx''),
           (''filename'', PStr ''report.pptx'')] ''success'' = Some (PBool True)"
    by simp
  have ok2: "map_of [(''success'', PBool True),
           (''s3_url'', PStr ''s3://demo-bucket/presentations/q3.pptx''),
           (''https_url'',
            PStr ''https://demo-bucket.s3.us-east-1.amazonaws.com/presentations/q3.pptx''),
           (''bucket'', PStr ''demo-bucket''),
           (''key'', PStr ''presentations/q3.pptx''),
           (''filename'', PStr ''q3.pptx'')] ''success'' = Some (PBool True)"
    by simp
  have a: "\<not> endswith ''report'' ''.pptx''" and b: "endswith ''q3.pptx'' ''.pptx''"
    and n: "\<not> endswith ''report'' ''.pptx.pptx''"
    by (simp_all add: endswith_def)
  note t = upload_filename_extension [of "unsigned_world env_remote" demo_handler deck
      "''report''" empty_state, rule_format, OF conjI [OF run ok]]
  note t2 = upload_filename_extension [of "unsigned_world env_remote" demo_handler deck
      "''q3.pptx''" empty_state, rule_format, OF conjI [OF run2 ok2]]
  from t a have c: "ensure_pptx ''report'' = ''report'' @ ''.pptx''" by blast
  from t n have d: "\<not> endswith (ensure_pptx ''report'') ''.pptx.pptx''" by blast
  from t2 b have e: "ensure_pptx ''q3.pptx'' = ''q3.pptx''" by blast
  from c have c': "ensure_pptx ''report'' = ''report.pptx''" by simp
  show ?thesis
    by (intro conjI run a c' b e d)
qed

section \<open>Construction of the storage resolver\<close>

lemma get_s3_handler_caches:
  assumes "get_s3_handler w st = (Inr h, st1)"
  shows "s3_handler_global st1 = Some h"
  using assms
  by (auto simp: get_s3_handler_def split: option.splits prod.splits sum.splits)

lemma get_s3_handler_failure_caches_nothing:
  assumes "get_s3_handler w st = (Inl e, st1)"
  shows "s3_handler_global st1 = None"
  using assms
  by (auto simp: get_s3_handler_def split: option.splits prod.splits sum.splits
           dest: S3Handler_init_effects(3))

lemma get_s3_handler_calls_cached:
  assumes "s3_handler_global st = Some h"
  shows "get_s3_handler_calls ws st = (replicate (length ws) (Inr h), st)"
  using assms by (induction ws) (simp_all add: get_s3_handler_def)

lemma get_s3_handler_first_call:
  assumes "s3_handler_global st = None"
  shows "fst (get_s3_handler w st) = fst (S3Handler_init w st)"
    and "filter is_config_read (trace (snd (get_s3_handler w st)))
         = filter is_config_read (trace st) @ [ReadConfig]"
proof -
  obtain r st1 where i: "S3Handler_init w st = (r, st1)"
    by (cases "S3Handler_init w st")
  have c: "filter is_config_read (trace st1) = filter is_config_read (trace st) @ [ReadConfig]"
    using i by (rule S3Handler_init_effects(4))
  show "fst (get_s3_handler w st) = fst (S3Handler_init w st)"
    using assms i by (cases r) (simp_all add: get_s3_handler_def)
  show "filter is_config_read (trace (snd (get_s3_handler w st)))
         = filter is_config_read (trace st) @ [ReadConfig]"
    using assms i c by (cases r) (simp_all add: get_s3_handler_def)
qed

text \<open>
  C3: with remote mode enabled and no bucket (unset or empty), the constructor raises the
  configuration error \<open>ValueError\<close> whatever the other settings and collaborators are; the
  first \<open>get_s3_handler\<close> call raises it too and caches nothing, so there is no handler in
  local mode. Every handler the constructor returns with remote mode enabled has a
  non-empty bucket.
\<close>

theorem S3Handler_init_requires_bucket:
  "(lower (getenv_default (os_environ w) ''S3_ENABLED'' ''false'') = ''true''
      \<and> \<not> truthy_opt (getenv (os_environ w) ''S3_BUCKET_NAME'') \<longrightarrow>
        fst (S3Handler_init w st) =
          Inl (ValueError ''S3_ENABLED is true but S3_BUCKET_NAME is not set'')
        \<and> (s3_handler_global st = None \<longrightarrow>
             fst (get_s3_handler w st) =
               Inl (ValueError ''S3_ENABLED is true but S3_BUCKET_NAME is not set'')
             \<and> s3_handler_global (snd (get_s3_handler w st)) = None))
   \<and> (\<forall>h st1. S3Handler_init w st = (Inr h, st1) \<and> s3_enabled h \<longrightarrow>
          truthy_opt (s3_bucket h))
   \<and> (\<forall>h st1. s3_handler_global st = None \<and> get_s3_handler w st = (Inr h, st1)
          \<and> s3_enabled h \<longrightarrow> truthy_opt (s3_bucket h))"
proof (intro conjI allI impI)
  assume a: "lower (getenv_default (os_environ w) ''S3_ENABLED'' ''false'') = ''true''
      \<and> \<not> truthy_opt (getenv (os_environ w) ''S3_BUCKET_NAME'')"
  then show i: "fst (S3Handler_init w st) =
      Inl (ValueError ''S3_ENABLED is true but S3_BUCKET_NAME is not set'')"
    by (simp add: S3Handler_init_def Let_def)
  assume n: "s3_handler_global st = None"
  show "fst (get_s3_handler w st) =
      Inl (ValueError ''S3_ENABLED is true but S3_BUCKET_NAME is not set'')"
    using i get_s3_handler_first_call(1) [OF n] by simp
  then obtain st1 where
    "get_s3_handler w st =
       (Inl (ValueError ''S3_ENABLED is true but S3_BUCKET_NAME is not set''), st1)"
    by (cases "get_s3_handler w st") simp
  then show "s3_handler_global (snd (get_s3_handler w st)) = None"
    using get_s3_handler_failure_caches_nothing by fastforce
next
  fix h st1
  assume "S3Handler_init w st = (Inr h, st1) \<and> s3_enabled h"
  then show "truthy_opt (s3_bucket h)"
    using S3Handler_init_postcondition [of w st h st1] by simp
next
  fix h st1
  assume a: "s3_handler_global st = None \<and> get_s3_handler w st = (Inr h, st1) \<and> s3_enabled h"
  then have "fst (S3Handler_init w st) = Inr h"
    using get_s3_handler_first_call(1) [of st w] by simp
  then obtain st2 where "S3Handler_init w st = (Inr h, st2)"
    by (cases "S3Handler_init w st") simp
  then show "truthy_opt (s3_bucket h)"
    using a S3Handler_init_postcondition [of w st h st2] by simp
qed

theorem S3Handler_init_requires_bucket_witness:
  "lower (getenv_default (os_environ (unsigned_world env_no_bucket)) ''S3_ENABLED'' ''false'')
     = ''true''
   \<and> \<not> truthy_opt (getenv (os_environ (unsigned_world env_no_bucket)) ''S3_BUCKET_NAME'')
   \<and> s3_handler_global empty_state = None
   \<and> fst (S3Handler_init (unsigned_world env_no_bucket) empty_state) =
        Inl (ValueError ''S3_ENABLED is true but S3_BUCKET_NAME is not set'')
   \<and> fst (get_s3_handler (unsigned_world env_no_bucket) empty_state) =
        Inl (ValueError ''S3_ENABLED is true but S3_BUCKET_NAME is not set'')
   \<and> S3Handler_init (unsigned_world env_remote) empty_state =
        (Inr demo_handler, empty_state\<lparr>trace := [ReadConfig, CreateClient]\<rparr>)
   \<and> s3_enabled demo_handler
   \<and> truthy_opt (s3_bucket demo_handler)"
proof -
  have e: "lower (getenv_default (os_environ (unsigned_world env_no_bucket)) ''S3_ENABLED''
             ''false'') = ''true''"
    and b: "\<not> truthy_opt (getenv (os_environ (unsigned_world env_no_bucket)) ''S3_BUCKET_NAME'')"
    by (simp_all add: example_defs string_defs)
  have n: "s3_handler_global empty_state = None"
    by (simp add: empty_state_def)
  have run: "S3Handler_init (unsigned_world env_remote) empty_state =
        (Inr demo_handler, empty_state\<lparr>trace := [ReadConfig, CreateClient]\<rparr>)"
    by (simp add: example_defs string_defs S3Handler_init_def log_event_def Let_def)
  have en: "s3_enabled demo_handler"
    by (simp add: demo_handler_def)
  note t = S3Handler_init_requires_bucket [of "unsigned_world env_no_bucket" empty_state,
      THEN conjunct1, rule_format, OF conjI [OF e b]]
  note u = S3Handler_init_requires_bucket [of "unsigned_world env_remote" empty_state,
      THEN conjunct2, THEN conjunct1, rule_format, OF conjI [OF run en]]
  from t have i: "fst (S3Handler_init (unsigned_world env_no_bucket) empty_state) =
        Inl (ValueError ''S3_ENABLED is true but S3_BUCKET_NAME is not set'')"
    by (rule conjunct1)
  from t n have g: "fst (get_s3_handler (unsigned_world env_no_bucket) empty_state) =
        Inl (ValueError ''S3_ENABLED is true but S3_BUCKET_NAME is not set'')"
    by blast
  show ?thesis
    by (intro conjI e b n i g run en u)
qed

section \<open>The process-wide handler\<close>

text \<open>
  C9, as stated: in every sequence of calls the first call constructs the handler and
  every later call returns that instance without reading the configuration again. When
  the first call's construction raises, nothing is cached: the second call reads the
  configuration again and constructs a handler of its own.
\<close>

theorem failed_first_call_rereads_configuration_counterexample:
  "get_s3_handler_calls [unsigned_world env_no_bucket, unsigned_world env_local] empty_state =
     ([Inl (ValueError ''S3_ENABLED is true but S3_BUCKET_NAME is not set''), Inr local_handler],
      \<lparr>presentations = [], s3_handler_global = Some local_handler,
       trace = [ReadConfig, ReadConfig]\<rparr>)"
  by (simp add: example_defs string_defs S3Handler_init_def get_s3_handler_def log_event_def
        Let_def)

text \<open>
  C9, amended: a call made while no handler is cached constructs one by reading the
  configuration once; when that construction succeeds the handler is cached, and every
  later call, whatever the environment has become, returns the same handler and leaves the
  state as it is (no configuration read, no construction); when the construction raises,
  nothing is cached.
\<close>

theorem get_s3_handler_singleton:
  "(s3_handler_global st = None \<longrightarrow>
      fst (get_s3_handler w st) = fst (S3Handler_init w st)
      \<and> filter is_config_read (trace (snd (get_s3_handler w st)))
          = filter is_config_read (trace st) @ [ReadConfig])
   \<and> (\<forall>h st1. get_s3_handler w st = (Inr h, st1) \<longrightarrow>
          get_s3_handler_calls ws st1 = (replicate (length ws) (Inr h), st1))
   \<and> (\<forall>e st1. get_s3_handler w st = (Inl e, st1) \<longrightarrow> s3_handler_global st1 = None)"
  using get_s3_handler_first_call [of st w] get_s3_handler_caches [of w st]
    get_s3_handler_calls_cached get_s3_handler_failure_caches_nothing [of w st]
  by blast

theorem get_s3_handler_singleton_witness:
  "s3_handler_global empty_state = None
   \<and> get_s3_handler (unsigned_world env_remote) empty_state =
       (Inr demo_handler,
        \<lparr>presentations = [], s3_handler_global = Some demo_handler,
         trace = [ReadConfig, CreateClient]\<rparr>)
   \<and> get_s3_handler_calls [unsigned_world env_local, unsigned_world env_no_bucket]
        \<lparr>presentations = [], s3_handler_global = Some demo_handler,
         trace = [ReadConfig, CreateClient]\<rparr> =
       ([Inr demo_handler, Inr demo_handler],
        \<lparr>presentations = [], s3_handler_global = Some demo_handler,
         trace = [ReadConfig, CreateClient]\<rparr>)
   \<and> get_s3_handler (unsigned_world env_no_bucket) empty_state =
       (Inl (ValueError ''S3_ENABLED is true but S3_BUCKET_NAME is not set''),
        \<lparr>presentations = [], s3_handler_global = None, trace = [ReadConfig]\<rparr>)"
proof -
  have n: "s3_handler_global empty_state = None"
    by (simp add: empty_state_def)
  have run: "get_s3_handler (unsigned_world env_remote) empty_state =
       (Inr demo_handler,
        \<lparr>presentations = [], s3_handler_global = Some demo_handler,
         trace = [ReadConfig, CreateClient]\<rparr>)"
    by (simp add: example_defs string_defs S3Handler_init_def get_s3_handler_def log_event_def
          Let_def)
  have bad: "get_s3_handler (unsigned_world env_no_bucket) empty_state =
       (Inl (ValueError ''S3_ENABLED is true but S3_BUCKET_NAME is not set''),
        \<lparr>presentations = [], s3_handler_global = None, trace = [ReadConfig]\<rparr>)"
    by (simp add: example_defs string_defs S3Handler_init_def get_s3_handler_def log_event_def
          Let_def)
  note t = get_s3_handler_singleton [of empty_state "unsigned_world env_remote"
      "[unsigned_world env_local, unsigned_world env_no_bucket]",
      THEN conjunct2, THEN conjunct1, rule_format, OF run]
  from t have later: "get_s3_handler_calls [unsigned_world env_local, unsigned_world env_no_bucket]
        \<lparr>presentations = [], s3_handler_global = Some demo_handler,
         trace = [ReadConfig, CreateClient]\<rparr> =
       ([Inr demo_handler, Inr demo_handler],
        \<lparr>presentations = [], s3_handler_global = Some demo_handler,
         trace = [ReadConfig, CreateClient]\<rparr>)"
    by (simp add: numeral_2_eq_2)
  show ?thesis
    by (intro conjI n run later bad)
qed

section \<open>Generated identifiers\<close>

lemma length_alist_update:
  "length (AList.update k v al) = (if k \<in> fst ` set al then length al else length al + 1)"
  by (induction al) auto

lemma create_presentation_ok:
  assumes "ppt_create_presentation w = Inr pres"
  shows "create_presentation w None st =
     (Inr [(''presentation_id'', PStr (generated_id (presentations st))),
           (''message'', PStr (''Created new presentation with ID: ''
                                @ generated_id (presentations st))),
           (''slide_count'', PInt (slide_count pres))],
      st\<lparr>presentations := AList.update (generated_id (presentations st)) pres (presentations st)\<rparr>)"
  using assms by (simp add: create_presentation_def Let_def)

lemma open_presentation_ok:
  assumes "path_exists w file_path" and "ppt_open_presentation w file_path = Inr pres"
  shows "open_presentation w file_path None st =
     (Inr [(''presentation_id'', PStr (generated_id (presentations st))),
           (''message'', PStr (''Opened presentation from '' @ file_path @ '' with ID: ''
                                @ generated_id (presentations st))),
           (''slide_count'', PInt (slide_count pres))],
      st\<lparr>presentations := AList.update (generated_id (presentations st)) pres (presentations st)\<rparr>)"
  using assms by (simp add: open_presentation_def Let_def)

text \<open>
  C10: called without an identifier, \<open>create_presentation\<close> and \<open>open_presentation\<close> assign
  \<open>presentation_\<close> followed by the registry size plus one, store the new document under it
  and report success; the registry grows by one only when that identifier was free, and
  otherwise the entry already stored under it is replaced. Such a registry exists: after
  a document was stored under the caller's name \<open>presentation_2\<close> in an empty registry, the
  next generated identifier is \<open>presentation_2\<close>, the first document is gone and the registry
  still has one entry.
\<close>

theorem generated_id_may_replace:
  "generated_id reg = ''presentation_'' @ str_nat (length reg + 1)
   \<and> (\<forall>pres. ppt_create_presentation w = Inr pres \<longrightarrow>
        fst (create_presentation w None st) =
          Inr [(''presentation_id'', PStr (generated_id (presentations st))),
               (''message'', PStr (''Created new presentation with ID: ''
                                    @ generated_id (presentations st))),
               (''slide_count'', PInt (slide_count pres))]
        \<and> map_of (presentations (snd (create_presentation w None st)))
             (generated_id (presentations st)) = Some pres
        \<and> length (presentations (snd (create_presentation w None st))) =
             (if generated_id (presentations st) \<in> fst ` set (presentations st)
              then length (presentations st) else length (presentations st) + 1))
   \<and> (\<forall>pres. path_exists w file_path \<and> ppt_open_presentation w file_path = Inr pres \<longrightarrow>
        fst (open_presentation w file_path None st) =
          Inr [(''presentation_id'', PStr (generated_id (presentations st))),
               (''message'', PStr (''Opened presentation from '' @ file_path @ '' with ID: ''
                                    @ generated_id (presentations st))),
               (''slide_count'', PInt (slide_count pres))]
        \<and> map_of (presentations (snd (open_presentation w file_path None st)))
             (generated_id (presentations st)) = Some pres
        \<and> length (presentations (snd (open_presentation w file_path None st))) =
             (if generated_id (presentations st) \<in> fst ` set (presentations st)
              then length (presentations st) else length (presentations st) + 1))
   \<and> snd (open_presentation (unsigned_world env_local) ''old.pptx'' (Some ''presentation_2'')
             empty_state) = taken_id_state
   \<and> create_presentation (unsigned_world env_local) None taken_id_state =
       (Inr [(''presentation_id'', PStr ''presentation_2''),
             (''message'', PStr ''Created new presentation with ID: presentation_2''),
             (''slide_count'', PInt 0)],
        \<lparr>presentations = [(''presentation_2'', deck)], s3_handler_global = None, trace = []\<rparr>)"
proof (intro conjI allI impI)
  show "generated_id reg = ''presentation_'' @ str_nat (length reg + 1)"
    by (simp add: generated_id_def)
next
  fix pres
  assume a: "ppt_create_presentation w = Inr pres"
  note r = create_presentation_ok [OF a, of st]
  show "fst (create_presentation w None st) =
          Inr [(''presentation_id'', PStr (generated_id (presentations st))),
               (''message'', PStr (''Created new presentation with ID: ''
                                    @ generated_id (presentations st))),
               (''slide_count'', PInt (slide_count pres))]"
    by (simp add: r)
  show "map_of (presentations (snd (create_presentation w None st)))
             (generated_id (presentations st)) = Some pres"
    by (simp add: r update_conv')
  show "length (presentations (snd (create_presentation w None st))) =
             (if generated_id (presentations st) \<in> fst ` set (presentations st)
              then length (presentations st) else length (presentations st) + 1)"
    by (simp add: r length_alist_update)
next
  fix pres
  assume "path_exists w file_path \<and> ppt_open_presentation w file_path = Inr pres"
  then have a: "path_exists w file_path" and b: "ppt_open_presentation w file_path = Inr pres"
    by simp_all
  note r = open_presentation_ok [OF a b, of st]
  show "fst (open_presentation w file_path None st) =
          Inr [(''presentation_id'', PStr (generated_id (presentations st))),
               (''message'', PStr (''Opened presentation from '' @ file_path @ '' with ID: ''
                                    @ generated_id (presentations st))),
               (''slide_count'', PInt (slide_count pres))]"
    by (simp add: r)
  show "map_of (presentations (snd (open_presentation w file_path None st)))
             (generated_id (presentations st)) = Some pres"
    by (simp add: r update_conv')
  show "length (presentations (snd (open_presentation w file_path None st))) =
             (if generated_id (presentations st) \<in> fst ` set (presentations st)
              then length (presentations st) else length (presentations st) + 1)"
    by (simp add: r length_alist_update)
next
  show "snd (open_presentation (unsigned_world env_local) ''old.pptx'' (Some ''presentation_2'')
             empty_state) = taken_id_state"
    by (simp add: example_defs open_presentation_def Let_def)
next
  show "create_presentation (unsigned_world env_local) None taken_id_state =
       (Inr [(''presentation_id'', PStr ''presentation_2''),
             (''message'', PStr ''Created new presentation with ID: presentation_2''),
             (''slide_count'', PInt 0)],
        \<lparr>presentations = [(''presentation_2'', deck)], s3_handler_global = None, trace = []\<rparr>)"
    by (simp add: example_defs create_presentation_def generated_id_def str_nat.simps
          digit_char_def Let_def)
qed

theorem generated_id_may_replace_witness:
  "ppt_create_presentation (unsigned_world env_local) = Inr deck
   \<and> generated_id (presentations taken_id_state) = ''presentation_2''
   \<and> map_of (presentations taken_id_state) ''presentation_2'' = Some other_deck
   \<and> map_of (presentations (snd (create_presentation (unsigned_world env_local) None
        taken_id_state))) (generated_id (presentations taken_id_state)) = Some deck
   \<and> length (presentations (snd (create_presentation (unsigned_world env_local) None
        taken_id_state))) = length (presentations taken_id_state)
   \<and> path_exists (unsigned_world env_local) ''new.pptx''
   \<and> ppt_open_presentation (unsigned_world env_local) ''new.pptx'' = Inr other_deck
   \<and> length (presentations (snd (open_presentation (unsigned_world env_local) ''new.pptx'' None
        empty_state))) = length (presentations empty_state) + 1"
proof -
  have c: "ppt_create_presentation (unsigned_world env_local) = Inr deck"
    and e: "path_exists (unsigned_world env_local) ''new.pptx''"
    and f: "ppt_open_presentation (unsigned_world env_local) ''new.pptx'' = Inr other_deck"
    by (simp_all add: example_defs)
  have g: "generated_id (presentations taken_id_state) = ''presentation_2''"
    by (simp add: taken_id_state_def generated_id_def str_nat.simps digit_char_def)
  have old: "map_of (presentations taken_id_state) ''presentation_2'' = Some other_deck"
    by (simp add: taken_id_state_def)
  have taken: "generated_id (presentations taken_id_state) \<in> fst ` set (presentations taken_id_state)"
    unfolding g by (simp add: taken_id_state_def)
  have free: "generated_id (presentations empty_state) \<notin> fst ` set (presentations empty_state)"
    by (simp add: empty_state_def)
  note t = generated_id_may_replace [of "[]" "unsigned_world env_local" taken_id_state
      "''new.pptx''", THEN conjunct2, THEN conjunct1, rule_format, OF c]
  note u = generated_id_may_replace [of "[]" "unsigned_world env_local" empty_state
      "''new.pptx''", THEN conjunct2, THEN conjunct2, THEN conjunct1, rule_format,
      OF conjI [OF e f]]
  from t have m: "map_of (presentations (snd (create_presentation (unsigned_world env_local) None
        taken_id_state))) (generated_id (presentations taken_id_state)) = Some deck"
    by blast
  from t taken have l: "length (presentations (snd (create_presentation (unsigned_world env_local)
        None taken_id_state))) = length (presentations taken_id_state)"
    by presburger
  from u free have k: "length (presentations (snd (open_presentation (unsigned_world env_local)
        ''new.pptx'' None empty_state))) = length (presentations empty_state) + 1"
    by presburger
  show ?thesis
    by (intro conjI c g old m l e f k)
qed

section \<open>Exceptions at the tool boundary\<close>

text \<open>
  Three tools wrap their collaborators: \<open>open_presentation\<close> and \<open>get_storage_mode\<close> never
  let an exception through, and neither does \<open>save_presentation\<close> once the presentation
  identifier is known.
\<close>

lemma open_presentation_catches: "fst (open_presentation w file_path ident st) \<noteq> Inl e"
  by (simp add: open_presentation_def Let_def split: sum.splits)

lemma get_storage_mode_catches: "fst (get_storage_mode w st) \<noteq> Inl e"
  by (simp add: get_storage_mode_def split: prod.splits sum.splits)

lemma save_presentation_catches: "fst (save_presentation w file_path (Some k) st) \<noteq> Inl e"
  by (simp add: save_presentation_def resolve_pres_id_def split: option.splits prod.splits sum.splits)

text \<open>
  C2 fails on \<open>create_presentation\<close>: the call of the document library is outside any
  \<open>try\<close>, so when the library raises, the exception leaves the tool and no result
  dictionary is returned.
\<close>

theorem create_presentation_propagates_exception:
  "create_presentation broken_library_world None empty_state =
     (Inl (OtherException ''Package not found''), empty_state)"
  by (simp add: example_defs create_presentation_def)

section \<open>Saving a presentation\<close>

lemma generate_presigned_url_result:
  "fst (generate_presigned_url w h key n st) = fst (generate_presigned_url w h key n st')"
  by (simp add: generate_presigned_url_def Let_def split: option.splits sum.splits)

lemma get_s3_handler_local_remote_ops:
  assumes "get_s3_handler w st = (Inr h, st1)" and "\<not> s3_enabled h"
  shows "filter is_remote_op (trace st1) = filter is_remote_op (trace st)"
proof (cases "s3_handler_global st")
  case (Some g)
  with assms show ?thesis by (simp add: get_s3_handler_def)
next
  case None
  obtain r st2 where i: "S3Handler_init w st = (r, st2)"
    by (cases "S3Handler_init w st")
  with None assms have r: "r = Inr h" and s: "st1 = st2\<lparr>s3_handler_global := Some h\<rparr>"
    by (cases r; simp add: get_s3_handler_def)+
  from i r have "S3Handler_init w st = (Inr h, st2)" by simp
  then have "filter is_remote_op (trace st2) = filter is_remote_op (trace st)"
    using S3Handler_init_postcondition [of w st h st2] assms(2) by simp
  with s show ?thesis by simp
qed

lemma save_presentation_remote_local_writes:
  assumes "get_s3_handler w st = (Inr h, st1)" and "s3_enabled h"
  shows "filter is_local_write (trace (snd (save_presentation w file_path presentation_id st)))
         = filter is_local_write (trace st)"
proof (cases "resolve_pres_id w presentation_id")
  case (Inl e)
  then show ?thesis by (simp add: save_presentation_def)
next
  case (Inr pres_id)
  show ?thesis
  proof (cases "lookup_presentation pres_id (presentations st)")
    case None
    with Inr show ?thesis by (simp add: save_presentation_def)
  next
    case (Some kp)
    obtain k pres where kp: "kp = (k, pres)" by (cases kp)
    obtain r st' where t: "save_try w file_path k pres st = (r, st')"
      by (cases "save_try w file_path k pres st")
    have "filter is_local_write (trace st') = filter is_local_write (trace st)"
      using assms t by (rule save_try_remote_local_writes)
    moreover have "snd (save_presentation w file_path presentation_id st) = st'"
      using Inr Some kp t by (cases r) (simp_all add: save_presentation_def)
    ultimately show ?thesis by simp
  qed
qed

lemma save_presentation_remote_success:
  assumes "get_s3_handler w st = (Inr h, st1)" and "s3_enabled h"
    and "fst (save_presentation w file_path presentation_id st) = Inr d"
    and "map_of d ''success'' = Some (PBool True)"
  shows "\<exists>k u. Inr d = s3_response
     [(''success'', PBool True),
      (''s3_url'', PStr (''s3://'' @ fmt_opt (s3_bucket h) @ ''/''
                         @ make_s3_key (s3_prefix h) (ensure_pptx (basename file_path)))),
      (''https_url'', PStr (''https://'' @ fmt_opt (s3_bucket h) @ ''.s3.'' @ s3_region h
                            @ ''.amazonaws.com/''
                            @ make_s3_key (s3_prefix h) (ensure_pptx (basename file_path)))),
      (''bucket'', pyval_of_opt (s3_bucket h)),
      (''key'', PStr (make_s3_key (s3_prefix h) (ensure_pptx (basename file_path)))),
      (''filename'', PStr (ensure_pptx (basename file_path)))] k u"
proof (cases "resolve_pres_id w presentation_id")
  case (Inl e)
  with assms(3) show ?thesis by (simp add: save_presentation_def)
next
  case (Inr pres_id)
  show ?thesis
  proof (cases "lookup_presentation pres_id (presentations st)")
    case None
    with Inr assms(3,4) show ?thesis by (auto simp add: save_presentation_def)
  next
    case (Some kp)
    obtain k pres where kp: "kp = (k, pres)" by (cases kp)
    obtain r st' where t: "save_try w file_path k pres st = (r, st')"
      by (cases "save_try w file_path k pres st")
    show ?thesis
    proof (cases r)
      case (Inl e)
      with Inr Some kp t assms(3) have "d = save_except e"
        by (simp add: save_presentation_def)
      with assms(4) show ?thesis by (simp add: save_except_success)
    next
      case r: (Inr d')
      with Inr Some kp t assms(3) have "d' = d"
        by (simp add: save_presentation_def)
      with t r have "save_try w file_path k pres st = (Inr d, st')" by simp
      from save_try_remote_success [OF assms(1,2) this assms(4)] show ?thesis by blast
    qed
  qed
qed

lemma save_presentation_remote_ok:
  assumes "get_s3_handler w st = (Inr h, st1)" and "s3_enabled h"
    and "resolve_pres_id w presentation_id = Inr (Some k)"
    and "map_of (presentations st) k = Some pres"
    and "upload_presentation w h pres (basename file_path) st1 = (Inr result, st2)"
    and "map_of result ''success'' = Some (PBool True)"
    and "generate_presigned_url w h (make_s3_key (s3_prefix h) (ensure_pptx (basename file_path)))
           3600 st2 = (Inr u, st3)"
  shows "save_presentation w file_path presentation_id st =
     (s3_response
       [(''success'', PBool True),
        (''s3_url'', PStr (''s3://'' @ fmt_opt (s3_bucket h) @ ''/''
                           @ make_s3_key (s3_prefix h) (ensure_pptx (basename file_path)))),
        (''https_url'', PStr (''https://'' @ fmt_opt (s3_bucket h) @ ''.s3.'' @ s3_region h
                              @ ''.amazonaws.com/''
                              @ make_s3_key (s3_prefix h) (ensure_pptx (basename file_path)))),
        (''bucket'', pyval_of_opt (s3_bucket h)),
        (''key'', PStr (make_s3_key (s3_prefix h) (ensure_pptx (basename file_path)))),
        (''filename'', PStr (ensure_pptx (basename file_path)))] k u, st3)"
proof -
  have res: "result =
       [(''success'', PBool True),
        (''s3_url'', PStr (''s3://'' @ fmt_opt (s3_bucket h) @ ''/''
                           @ make_s3_key (s3_prefix h) (ensure_pptx (basename file_path)))),
        (''https_url'', PStr (''https://'' @ fmt_opt (s3_bucket h) @ ''.s3.'' @ s3_region h
                              @ ''.amazonaws.com/''
                              @ make_s3_key (s3_prefix h) (ensure_pptx (basename file_path)))),
        (''bucket'', pyval_of_opt (s3_bucket h)),
        (''key'', PStr (make_s3_key (s3_prefix h) (ensure_pptx (basename file_path)))),
        (''filename'', PStr (ensure_pptx (basename file_path)))]"
    using upload_presentation_success [OF assms(5,6)] by simp
  have "save_try w file_path k pres st = (s3_response result k u, st3)"
    using assms(1,2,5,7) by (simp add: save_try_def getitem_def res)
  moreover have "\<exists>d. s3_response result k u = Inr d"
    by (simp add: res s3_response_def getitem_def Let_def)
  ultimately show ?thesis
    using assms(3,4) res
    by (auto simp add: save_presentation_def lookup_presentation_def)
qed

text \<open>
  C1: with remote mode enabled and a non-empty bucket, \<open>save_presentation\<close> never calls the
  local save routine, whatever its collaborators answer. The file name is the base name of
  the requested path with the extension ensured and has no directory part; every
  successful result carries the key made of the normalised prefix, a separator and that
  file name, the bucket, and the two addresses built from bucket, region and key; and the
  result is successful whenever the document is registered and serialising, uploading and
  signing do not raise.
\<close>

theorem remote_save_key_and_uris:
  "get_s3_handler w st = (Inr h, st1) \<and> s3_enabled h \<and> s3_bucket h = Some bucket
     \<and> bucket \<noteq> [] \<longrightarrow>
   filter is_local_write (trace (snd (save_presentation w file_path presentation_id st)))
     = filter is_local_write (trace st)
   \<and> CHR ''/'' \<notin> set (ensure_pptx (basename file_path))
   \<and> (\<forall>d. fst (save_presentation w file_path presentation_id st) = Inr d
          \<and> map_of d ''success'' = Some (PBool True) \<longrightarrow>
        map_of d ''key'' =
          Some (PStr (rstrip ''/'' (s3_prefix h) @ ''/'' @ ensure_pptx (basename file_path)))
        \<and> map_of d ''filename'' = Some (PStr (ensure_pptx (basename file_path)))
        \<and> map_of d ''bucket'' = Some (PStr bucket)
        \<and> map_of d ''s3_url'' =
            Some (PStr (''s3://'' @ bucket @ ''/''
                        @ rstrip ''/'' (s3_prefix h) @ ''/'' @ ensure_pptx (basename file_path)))
        \<and> map_of d ''https_url'' =
            Some (PStr (''https://'' @ bucket @ ''.s3.'' @ s3_region h @ ''.amazonaws.com/''
                        @ rstrip ''/'' (s3_prefix h) @ ''/'' @ ensure_pptx (basename file_path))))
   \<and> (\<forall>k pres c u.
          resolve_pres_id w presentation_id = Inr (Some k)
          \<and> map_of (presentations st) k = Some pres
          \<and> s3_client h = Some c
          \<and> prs_save w pres = None
          \<and> upload_fileobj w (Some bucket)
              (rstrip ''/'' (s3_prefix h) @ ''/'' @ ensure_pptx (basename file_path)) = None
          \<and> fst (generate_presigned_url w h
                (rstrip ''/'' (s3_prefix h) @ ''/'' @ ensure_pptx (basename file_path)) 3600 st1)
              = Inr u \<longrightarrow>
        (\<exists>d. fst (save_presentation w file_path presentation_id st) = Inr d
              \<and> map_of d ''success'' = Some (PBool True)))"
proof (intro impI, elim conjE)
  assume g: "get_s3_handler w st = (Inr h, st1)" and en: "s3_enabled h"
    and b: "s3_bucket h = Some bucket"
  let ?f = "ensure_pptx (basename file_path)"
  let ?key = "rstrip ''/'' (s3_prefix h) @ ''/'' @ ?f"
  have p1: "filter is_local_write (trace (snd (save_presentation w file_path presentation_id st)))
     = filter is_local_write (trace st)"
    using g en by (rule save_presentation_remote_local_writes)
  have p2: "CHR ''/'' \<notin> set ?f"
    by (rule ensure_pptx_no_slash) (rule basename_no_slash)
  have p3: "map_of d ''key'' = Some (PStr ?key)
        \<and> map_of d ''filename'' = Some (PStr ?f)
        \<and> map_of d ''bucket'' = Some (PStr bucket)
        \<and> map_of d ''s3_url'' = Some (PStr (''s3://'' @ bucket @ ''/'' @ ?key))
        \<and> map_of d ''https_url'' =
            Some (PStr (''https://'' @ bucket @ ''.s3.'' @ s3_region h @ ''.amazonaws.com/''
                        @ ?key))"
    if "fst (save_presentation w file_path presentation_id st) = Inr d
          \<and> map_of d ''success'' = Some (PBool True)" for d
  proof -
    from that obtain k u where "Inr d = s3_response
       [(''success'', PBool True),
        (''s3_url'', PStr (''s3://'' @ fmt_opt (s3_bucket h) @ ''/''
                           @ make_s3_key (s3_prefix h) ?f)),
        (''https_url'', PStr (''https://'' @ fmt_opt (s3_bucket h) @ ''.s3.'' @ s3_region h
                              @ ''.amazonaws.com/'' @ make_s3_key (s3_prefix h) ?f)),
        (''bucket'', pyval_of_opt (s3_bucket h)),
        (''key'', PStr (make_s3_key (s3_prefix h) ?f)),
        (''filename'', PStr ?f)] k u"
      using save_presentation_remote_success [OF g en] by blast
    then have "d = (if truthy_opt u then
            [(''success'', PBool True),
             (''message'', PStr (''Presentation saved to S3: ''
                @ str_pyval (PStr (''s3://'' @ fmt_opt (s3_bucket h) @ ''/''
                           @ make_s3_key (s3_prefix h) ?f))
                @ [CHR 0x0A, CHR 0x0A] @ ''Temporary download URL (expires in 1 hour):''
                @ [CHR 0x0A] @ fmt_opt u)),
             (''storage_type'', PStr ''s3''),
             (''s3_url'', PStr (''s3://'' @ fmt_opt (s3_bucket h) @ ''/''
                           @ make_s3_key (s3_prefix h) ?f)),
             (''https_url'', PStr (''https://'' @ fmt_opt (s3_bucket h) @ ''.s3.'' @ s3_region h
                              @ ''.amazonaws.com/'' @ make_s3_key (s3_prefix h) ?f)),
             (''bucket'', pyval_of_opt (s3_bucket h)),
             (''key'', PStr (make_s3_key (s3_prefix h) ?f)),
             (''filename'', PStr ?f), (''presentation_id'', PStr k),
             (''presigned_url'', PStr (fmt_opt u)), (''presigned_url_expires'', PStr ''1 hour'')]
          else
            [(''success'', PBool True),
             (''message'', PStr (''Presentation saved to S3: ''
                @ str_pyval (PStr (''s3://'' @ fmt_opt (s3_bucket h) @ ''/''
                           @ make_s3_key (s3_prefix h) ?f)))),
             (''storage_type'', PStr ''s3''),
             (''s3_url'', PStr (''s3://'' @ fmt_opt (s3_bucket h) @ ''/''
                           @ make_s3_key (s3_prefix h) ?f)),
             (''https_url'', PStr (''https://'' @ fmt_opt (s3_bucket h) @ ''.s3.'' @ s3_region h
                              @ ''.amazonaws.com/'' @ make_s3_key (s3_prefix h) ?f)),
             (''bucket'', pyval_of_opt (s3_bucket h)),
             (''key'', PStr (make_s3_key (s3_prefix h) ?f)),
             (''filename'', PStr ?f), (''presentation_id'', PStr k)])"
      by (subst (asm) s3_response_copies) simp_all
    then show ?thesis
      by (cases "truthy_opt u") (simp_all add: b make_s3_key_def)
  qed
  have p4: "\<exists>d. fst (save_presentation w file_path presentation_id st) = Inr d
              \<and> map_of d ''success'' = Some (PBool True)"
    if a: "resolve_pres_id w presentation_id = Inr (Some k)
          \<and> map_of (presentations st) k = Some pres
          \<and> s3_client h = Some c
          \<and> prs_save w pres = None
          \<and> upload_fileobj w (Some bucket) ?key = None
          \<and> fst (generate_presigned_url w h ?key 3600 st1) = Inr u" for k pres c u
  proof -
    let ?st2 = "log_event (S3Upload (s3_bucket h) (make_s3_key (s3_prefix h) ?f))
        (log_event (SerializeToBuffer pres) st1)"
    let ?result = "[(''success'', PBool True),
        (''s3_url'', PStr (''s3://'' @ fmt_opt (s3_bucket h) @ ''/''
                           @ make_s3_key (s3_prefix h) ?f)),
        (''https_url'', PStr (''https://'' @ fmt_opt (s3_bucket h) @ ''.s3.'' @ s3_region h
                              @ ''.amazonaws.com/'' @ make_s3_key (s3_prefix h) ?f)),
        (''bucket'', pyval_of_opt (s3_bucket h)),
        (''key'', PStr (make_s3_key (s3_prefix h) ?f)),
        (''filename'', PStr ?f)]"
    from a have up: "upload_presentation w h pres (basename file_path) st1 = (Inr ?result, ?st2)"
      using en b by (intro upload_presentation_ok) (simp_all add: make_s3_key_def)
    have ok: "map_of ?result ''success'' = Some (PBool True)" by simp
    from a have "fst (generate_presigned_url w h (make_s3_key (s3_prefix h) ?f) 3600 ?st2) = Inr u"
      using generate_presigned_url_result [of w h ?key 3600 ?st2 st1]
      by (simp add: make_s3_key_def)
    then obtain st3 where pre:
      "generate_presigned_url w h (make_s3_key (s3_prefix h) ?f) 3600 ?st2 = (Inr u, st3)"
      by (cases "generate_presigned_url w h (make_s3_key (s3_prefix h) ?f) 3600 ?st2") simp
    from a have r: "resolve_pres_id w presentation_id = Inr (Some k)"
      and m: "map_of (presentations st) k = Some pres" by simp_all
    have s: "save_presentation w file_path presentation_id st = (s3_response ?result k u, st3)"
      using save_presentation_remote_ok [OF g en r m up ok pre] .
    have "\<exists>d. s3_response ?result k u = Inr d \<and> map_of d ''success'' = Some (PBool True)"
      by (subst s3_response_copies) simp_all
    with s show ?thesis by simp
  qed
  from p1 p2 p3 p4 show
   "filter is_local_write (trace (snd (save_presentation w file_path presentation_id st)))
     = filter is_local_write (trace st)
   \<and> CHR ''/'' \<notin> set ?f
   \<and> (\<forall>d. fst (save_presentation w file_path presentation_id st) = Inr d
          \<and> map_of d ''success'' = Some (PBool True) \<longrightarrow>
        map_of d ''key'' = Some (PStr ?key)
        \<and> map_of d ''filename'' = Some (PStr ?f)
        \<and> map_of d ''bucket'' = Some (PStr bucket)
        \<and> map_of d ''s3_url'' = Some (PStr (''s3://'' @ bucket @ ''/'' @ ?key))
        \<and> map_of d ''https_url'' =
            Some (PStr (''https://'' @ bucket @ ''.s3.'' @ s3_region h @ ''.amazonaws.com/''
                        @ ?key)))
   \<and> (\<forall>k pres c u.
          resolve_pres_id w presentation_id = Inr (Some k)
          \<and> map_of (presentations st) k = Some pres
          \<and> s3_client h = Some c
          \<and> prs_save w pres = None
          \<and> upload_fileobj w (Some bucket) ?key = None
          \<and> fst (generate_presigned_url w h ?key 3600 st1) = Inr u \<longrightarrow>
        (\<exists>d. fst (save_presentation w file_path presentation_id st) = Inr d
              \<and> map_of d ''success'' = Some (PBool True)))"
    by blast
qed

theorem remote_save_key_and_uris_witness:
  "get_s3_handler (signed_world env_remote) one_deck_state =
     (Inr demo_handler,
      \<lparr>presentations = [(''deck'', deck)], s3_handler_global = Some demo_handler,
       trace = [ReadConfig, CreateClient]\<rparr>)
   \<and> s3_enabled demo_handler
   \<and> s3_bucket demo_handler = Some ''demo-bucket''
   \<and> ''demo-bucket'' \<noteq> []
   \<and> rstrip ''/'' (s3_prefix demo_handler) @ ''/'' @ ensure_pptx (basename ''out/report'')
       = ''presentations/report.pptx''
   \<and> filter is_local_write (trace (snd (save_presentation (signed_world env_remote)
        ''out/report'' (Some ''deck'') one_deck_state))) = []
   \<and> (\<exists>d. fst (save_presentation (signed_world env_remote) ''out/report'' (Some ''deck'')
               one_deck_state) = Inr d
          \<and> map_of d ''success'' = Some (PBool True)
          \<and> map_of d ''key'' = Some (PStr ''presentations/report.pptx'')
          \<and> map_of d ''filename'' = Some (PStr ''report.pptx'')
          \<and> map_of d ''s3_url'' = Some (PStr ''s3://demo-bucket/presentations/report.pptx'')
          \<and> map_of d ''https_url'' =
              Some (PStr ''https://demo-bucket.s3.us-east-1.amazonaws.com/presentations/report.pptx''))"
proof -
  let ?w = "signed_world env_remote"
  let ?st1 = "\<lparr>presentations = [(''deck'', deck)], s3_handler_global = Some demo_handler,
       trace = [ReadConfig, CreateClient]\<rparr>"
  let ?key = "rstrip ''/'' (s3_prefix demo_handler) @ ''/'' @ ensure_pptx (basename ''out/report'')"
  have g: "get_s3_handler ?w one_deck_state = (Inr demo_handler, ?st1)"
    by (simp add: example_defs string_defs S3Handler_init_def get_s3_handler_def log_event_def
          Let_def)
  have en: "s3_enabled demo_handler" and b: "s3_bucket demo_handler = Some ''demo-bucket''"
    and c: "s3_client demo_handler = Some (S3Client None None ''us-east-1'')"
    and reg: "s3_region demo_handler = ''us-east-1''"
    by (simp_all add: demo_handler_def)
  have ne: "''demo-bucket'' \<noteq> []" by simp
  have kv: "?key = ''presentations/report.pptx''"
    by (simp add: demo_handler_def string_defs)
  have fv: "ensure_pptx (basename ''out/report'') = ''report.pptx''"
    by (simp add: string_defs)
  have pv: "rstrip ''/'' (s3_prefix demo_handler) = ''presentations''"
    by (simp add: demo_handler_def string_defs)
  have r: "resolve_pres_id ?w (Some ''deck'') = Inr (Some ''deck'')"
    by (simp add: resolve_pres_id_def)
  have m: "map_of (presentations one_deck_state) ''deck'' = Some deck"
    by (simp add: one_deck_state_def)
  have ps: "prs_save ?w deck = None"
    and uf: "upload_fileobj ?w (Some ''demo-bucket'') ?key = None"
    by (simp_all add: example_defs)
  have pu: "fst (generate_presigned_url ?w demo_handler ?key 3600 ?st1)
            = Inr (Some (''https://signed/'' @ ?key))"
    by (simp add: generate_presigned_url_def example_defs Let_def)
  have tr: "filter is_local_write (trace one_deck_state) = []"
    by (simp add: one_deck_state_def)
  note t = remote_save_key_and_uris [of ?w one_deck_state demo_handler ?st1 "''demo-bucket''"
      "''out/report''" "Some ''deck''", rule_format, OF conjI [OF g conjI [OF en conjI [OF b ne]]]]
  from t have l: "filter is_local_write (trace (snd (save_presentation ?w ''out/report''
        (Some ''deck'') one_deck_state))) = filter is_local_write (trace one_deck_state)"
    by (rule conjunct1)
  from t r m c ps uf pu obtain d where
    d: "fst (save_presentation ?w ''out/report'' (Some ''deck'') one_deck_state) = Inr d"
    and ok: "map_of d ''success'' = Some (PBool True)"
    by blast
  from t d ok have f: "map_of d ''key'' = Some (PStr ?key)
        \<and> map_of d ''filename'' = Some (PStr (ensure_pptx (basename ''out/report'')))
        \<and> map_of d ''bucket'' = Some (PStr ''demo-bucket'')
        \<and> map_of d ''s3_url'' = Some (PStr (''s3://'' @ ''demo-bucket'' @ ''/'' @ ?key))
        \<and> map_of d ''https_url'' =
            Some (PStr (''https://'' @ ''demo-bucket'' @ ''.s3.'' @ s3_region demo_handler
                        @ ''.amazonaws.com/'' @ ?key))"
    by blast
  have e: "\<exists>d. fst (save_presentation ?w ''out/report'' (Some ''deck'') one_deck_state) = Inr d
          \<and> map_of d ''success'' = Some (PBool True)
          \<and> map_of d ''key'' = Some (PStr ''presentations/report.pptx'')
          \<and> map_of d ''filename'' = Some (PStr ''report.pptx'')
          \<and> map_of d ''s3_url'' = Some (PStr ''s3://demo-bucket/presentations/report.pptx'')
          \<and> map_of d ''https_url'' =
              Some (PStr ''https://demo-bucket.s3.us-east-1.amazonaws.com/presentations/report.pptx'')"
    using d ok f by (intro exI [of _ d]) (simp add: pv fv reg)
  from l tr have l': "filter is_local_write (trace (snd (save_presentation ?w ''out/report''
        (Some ''deck'') one_deck_state))) = []"
    by simp
  show ?thesis
    by (intro conjI g en b ne kv l' e)
qed

text \<open>
  C7: in remote mode, when the upload has succeeded and \<open>generate_presigned_url\<close> returns
  no URL, \<open>save_presentation\<close> returns the successful result with the message, the storage
  type, both addresses, bucket, key, file name and identifier, and without the
  \<open>presigned_url\<close> and \<open>presigned_url_expires\<close> fields.
\<close>

theorem presigned_url_failure_keeps_success:
  "get_s3_handler w st = (Inr h, st1) \<and> s3_enabled h
     \<and> resolve_pres_id w presentation_id = Inr (Some k)
     \<and> map_of (presentations st) k = Some pres
     \<and> upload_presentation w h pres (basename file_path) st1 = (Inr result, st2)
     \<and> map_of result ''success'' = Some (PBool True)
     \<and> generate_presigned_url w h
          (make_s3_key (s3_prefix h) (ensure_pptx (basename file_path))) 3600 st2 = (Inr u, st3)
     \<and> \<not> truthy_opt u \<longrightarrow>
   (\<exists>d. save_presentation w file_path presentation_id st = (Inr d, st3)
      \<and> d = [(''success'', PBool True),
              (''message'', PStr (''Presentation saved to S3: s3://'' @ fmt_opt (s3_bucket h)
                 @ ''/'' @ make_s3_key (s3_prefix h) (ensure_pptx (basename file_path)))),
              (''storage_type'', PStr ''s3''),
              (''s3_url'', PStr (''s3://'' @ fmt_opt (s3_bucket h) @ ''/''
                 @ make_s3_key (s3_prefix h) (ensure_pptx (basename file_path)))),
              (''https_url'', PStr (''https://'' @ fmt_opt (s3_bucket h) @ ''.s3.'' @ s3_region h
                 @ ''.amazonaws.com/''
                 @ make_s3_key (s3_prefix h) (ensure_pptx (basename file_path)))),
              (''bucket'', pyval_of_opt (s3_bucket h)),
              (''key'', PStr (make_s3_key (s3_prefix h) (ensure_pptx (basename file_path)))),
              (''filename'', PStr (ensure_pptx (basename file_path))),
              (''presentation_id'', PStr k)]
      \<and> map_of d ''success'' = Some (PBool True)
      \<and> map_of d ''presigned_url'' = None
      \<and> map_of d ''presigned_url_expires'' = None)"
proof (intro impI, elim conjE)
  assume g: "get_s3_handler w st = (Inr h, st1)" and en: "s3_enabled h"
    and r: "resolve_pres_id w presentation_id = Inr (Some k)"
    and m: "map_of (presentations st) k = Some pres"
    and up: "upload_presentation w h pres (basename file_path) st1 = (Inr result, st2)"
    and ok: "map_of result ''success'' = Some (PBool True)"
    and pre: "generate_presigned_url w h
          (make_s3_key (s3_prefix h) (ensure_pptx (basename file_path))) 3600 st2 = (Inr u, st3)"
    and nu: "\<not> truthy_opt u"
  note s = save_presentation_remote_ok [OF g en r m up ok pre]
  show "\<exists>d. save_presentation w file_path presentation_id st = (Inr d, st3)
      \<and> d = [(''success'', PBool True),
              (''message'', PStr (''Presentation saved to S3: s3://'' @ fmt_opt (s3_bucket h)
                 @ ''/'' @ make_s3_key (s3_prefix h) (ensure_pptx (basename file_path)))),
              (''storage_type'', PStr ''s3''),
              (''s3_url'', PStr (''s3://'' @ fmt_opt (s3_bucket h) @ ''/''
                 @ make_s3_key (s3_prefix h) (ensure_pptx (basename file_path)))),
              (''https_url'', PStr (''https://'' @ fmt_opt (s3_bucket h) @ ''.s3.'' @ s3_region h
                 @ ''.amazonaws.com/''
                 @ make_s3_key (s3_prefix h) (ensure_pptx (basename file_path)))),
              (''bucket'', pyval_of_opt (s3_bucket h)),
              (''key'', PStr (make_s3_key (s3_prefix h) (ensure_pptx (basename file_path)))),
              (''filename'', PStr (ensure_pptx (basename file_path))),
              (''presentation_id'', PStr k)]
      \<and> map_of d ''success'' = Some (PBool True)
      \<and> map_of d ''presigned_url'' = None
      \<and> map_of d ''presigned_url_expires'' = None"
    unfolding s using nu by (simp add: s3_response_copies)
qed

theorem presigned_url_failure_keeps_success_witness:
  "get_s3_handler (unsigned_world env_remote) one_deck_state =
     (Inr demo_handler,
      \<lparr>presentations = [(''deck'', deck)], s3_handler_global = Some demo_handler,
       trace = [ReadConfig, CreateClient]\<rparr>)
   \<and> s3_enabled demo_handler
   \<and> generate_presigned_url (unsigned_world env_remote) demo_handler
        (make_s3_key (s3_prefix demo_handler) (ensure_pptx (basename ''out/report''))) 3600
        \<lparr>presentations = [(''deck'', deck)], s3_handler_global = Some demo_handler,
         trace = [ReadConfig, CreateClient, SerializeToBuffer deck,
                  S3Upload (Some ''demo-bucket'') ''presentations/report.pptx'']\<rparr> =
      (Inr None,
       \<lparr>presentations = [(''deck'', deck)], s3_handler_global = Some demo_handler,
        trace = [ReadConfig, CreateClient, SerializeToBuffer deck,
                 S3Upload (Some ''demo-bucket'') ''presentations/report.pptx'',
                 S3Presign (Some ''demo-bucket'') ''presentations/report.pptx'' 3600]\<rparr>)
   \<and> \<not> truthy_opt None
   \<and> (\<exists>d. fst (save_presentation (unsigned_world env_remote) ''out/report'' (Some ''deck'')
               one_deck_state) = Inr d
          \<and> map_of d ''success'' = Some (PBool True)
          \<and> map_of d ''presigned_url'' = None)"
proof -
  let ?w = "unsigned_world env_remote"
  let ?st1 = "\<lparr>presentations = [(''deck'', deck)], s3_handler_global = Some demo_handler,
       trace = [ReadConfig, CreateClient]\<rparr>"
  let ?st2 = "\<lparr>presentations = [(''deck'', deck)], s3_handler_global = Some demo_handler,
         trace = [ReadConfig, CreateClient, SerializeToBuffer deck,
                  S3Upload (Some ''demo-bucket'') ''presentations/report.pptx'']\<rparr>"
  let ?st3 = "\<lparr>presentations = [(''deck'', deck)], s3_handler_global = Some demo_handler,
        trace = [ReadConfig, CreateClient, SerializeToBuffer deck,
                 S3Upload (Some ''demo-bucket'') ''presentations/report.pptx'',
                 S3Presign (Some ''demo-bucket'') ''presentations/report.pptx'' 3600]\<rparr>"
  let ?result = "[(''success'', PBool True),
           (''s3_url'', PStr ''s3://demo-bucket/presentations/report.pptx''),
           (''https_url'',
            PStr ''https://demo-bucket.s3.us-east-1.amazonaws.com/presentations/report.pptx''),
           (''bucket'', PStr ''demo-bucket''),
           (''key'', PStr ''presentations/report.pptx''),
           (''filename'', PStr ''report.pptx'')]"
  have g: "get_s3_handler ?w one_deck_state = (Inr demo_handler, ?st1)"
    by (simp add: example_defs string_defs S3Handler_init_def get_s3_handler_def log_event_def
          Let_def)
  have en: "s3_enabled demo_handler"
    by (simp add: demo_handler_def)
  have r: "resolve_pres_id ?w (Some ''deck'') = Inr (Some ''deck'')"
    by (simp add: resolve_pres_id_def)
  have m: "map_of (presentations one_deck_state) ''deck'' = Some deck"
    by (simp add: one_deck_state_def)
  have up: "upload_presentation ?w demo_handler deck (basename ''out/report'') ?st1
            = (Inr ?result, ?st2)"
    by (simp add: example_defs string_defs upload_presentation_def log_event_def Let_def)
  have ok: "map_of ?result ''success'' = Some (PBool True)"
    by simp
  have pre: "generate_presigned_url ?w demo_handler
        (make_s3_key (s3_prefix demo_handler) (ensure_pptx (basename ''out/report''))) 3600 ?st2
        = (Inr None, ?st3)"
    by (simp add: example_defs string_defs generate_presigned_url_def log_event_def Let_def)
  have nu: "\<not> truthy_opt None"
    by simp
  note t = presigned_url_failure_keeps_success [of ?w one_deck_state demo_handler ?st1
      "Some ''deck''" "''deck''" deck "''out/report''" ?result ?st2 None ?st3, rule_format,
      OF conjI [OF g conjI [OF en conjI [OF r conjI [OF m conjI [OF up conjI [OF ok
        conjI [OF pre nu]]]]]]]]
  from t obtain d where
    "save_presentation ?w ''out/report'' (Some ''deck'') one_deck_state = (Inr d, ?st3)"
    and s: "map_of d ''success'' = Some (PBool True)"
    and p: "map_of d ''presigned_url'' = None"
    by blast
  then have "fst (save_presentation ?w ''out/report'' (Some ''deck'') one_deck_state) = Inr d"
    by simp
  with s p have e: "\<exists>d. fst (save_presentation ?w ''out/report'' (Some ''deck'')
               one_deck_state) = Inr d
          \<and> map_of d ''success'' = Some (PBool True)
          \<and> map_of d ''presigned_url'' = None"
    by blast
  show ?thesis
    by (intro conjI g en pre nu e)
qed

text \<open>
  C8: with remote mode disabled, \<open>save_presentation\<close> makes exactly one outside call after
  resolving the handler, the local save routine with the registered document and the
  caller's path as given, and no remote-store call; the result reports the path the save
  routine returns, and a failure of the routine becomes a failure result.
\<close>

theorem local_save_verbatim_path:
  "get_s3_handler w st = (Inr h, st1) \<and> \<not> s3_enabled h
     \<and> resolve_pres_id w presentation_id = Inr (Some k)
     \<and> map_of (presentations st) k = Some pres \<longrightarrow>
   trace (snd (save_presentation w file_path presentation_id st))
     = trace st1 @ [LocalSave pres file_path]
   \<and> filter is_remote_op (trace (snd (save_presentation w file_path presentation_id st)))
     = filter is_remote_op (trace st)
   \<and> (\<forall>saved_path. ppt_save_presentation w pres file_path = Inr saved_path \<longrightarrow>
        fst (save_presentation w file_path presentation_id st) =
          Inr [(''success'', PBool True),
               (''message'', PStr (''Presentation saved to local file: '' @ saved_path)),
               (''storage_type'', PStr ''local''),
               (''file_path'', PStr saved_path),
               (''presentation_id'', PStr k)])
   \<and> (\<forall>e. ppt_save_presentation w pres file_path = Inl e \<longrightarrow>
        fst (save_presentation w file_path presentation_id st) = Inr (save_except e))"
proof (intro impI, elim conjE)
  assume g: "get_s3_handler w st = (Inr h, st1)" and en: "\<not> s3_enabled h"
    and r: "resolve_pres_id w presentation_id = Inr (Some k)"
    and m: "map_of (presentations st) k = Some pres"
  have ro: "filter is_remote_op (trace st1) = filter is_remote_op (trace st)"
    using g en by (rule get_s3_handler_local_remote_ops)
  have t: "save_try w file_path k pres st =
      (case ppt_save_presentation w pres file_path of
         Inl e \<Rightarrow> (Inl e, log_event (LocalSave pres file_path) st1)
       | Inr saved_path \<Rightarrow>
           (Inr [(''success'', PBool True),
                 (''message'', PStr (''Presentation saved to local file: '' @ saved_path)),
                 (''storage_type'', PStr ''local''),
                 (''file_path'', PStr saved_path),
                 (''presentation_id'', PStr k)], log_event (LocalSave pres file_path) st1))"
    using g en by (simp add: save_try_def Let_def)
  have s: "save_presentation w file_path presentation_id st =
      (case ppt_save_presentation w pres file_path of
         Inl e \<Rightarrow> (Inr (save_except e), log_event (LocalSave pres file_path) st1)
       | Inr saved_path \<Rightarrow>
           (Inr [(''success'', PBool True),
                 (''message'', PStr (''Presentation saved to local file: '' @ saved_path)),
                 (''storage_type'', PStr ''local''),
                 (''file_path'', PStr saved_path),
                 (''presentation_id'', PStr k)], log_event (LocalSave pres file_path) st1))"
    using r m t
    by (cases "ppt_save_presentation w pres file_path")
       (simp_all add: save_presentation_def lookup_presentation_def)
  show "trace (snd (save_presentation w file_path presentation_id st))
     = trace st1 @ [LocalSave pres file_path]
   \<and> filter is_remote_op (trace (snd (save_presentation w file_path presentation_id st)))
     = filter is_remote_op (trace st)
   \<and> (\<forall>saved_path. ppt_save_presentation w pres file_path = Inr saved_path \<longrightarrow>
        fst (save_presentation w file_path presentation_id st) =
          Inr [(''success'', PBool True),
               (''message'', PStr (''Presentation saved to local file: '' @ saved_path)),
               (''storage_type'', PStr ''local''),
               (''file_path'', PStr saved_path),
               (''presentation_id'', PStr k)])
   \<and> (\<forall>e. ppt_save_presentation w pres file_path = Inl e \<longrightarrow>
        fst (save_presentation w file_path presentation_id st) = Inr (save_except e))"
    unfolding s using ro
    by (cases "ppt_save_presentation w pres file_path") simp_all
qed

theorem local_save_verbatim_path_witness:
  "get_s3_handler (unsigned_world env_local) one_deck_state =
     (Inr local_handler,
      \<lparr>presentations = [(''deck'', deck)], s3_handler_global = Some local_handler,
       trace = [ReadConfig]\<rparr>)
   \<and> \<not> s3_enabled local_handler
   \<and> resolve_pres_id (unsigned_world env_local) (Some ''deck'') = Inr (Some ''deck'')
   \<and> map_of (presentations one_deck_state) ''deck'' = Some deck
   \<and> ppt_save_presentation (unsigned_world env_local) deck ''out/report'' = Inr ''out/report''
   \<and> trace (snd (save_presentation (unsigned_world env_local) ''out/report'' (Some ''deck'')
        one_deck_state)) = [ReadConfig, LocalSave deck ''out/report'']
   \<and> fst (save_presentation (unsigned_world env_local) ''out/report'' (Some ''deck'')
        one_deck_state) =
       Inr [(''success'', PBool True),
            (''message'', PStr ''Presentation saved to local file: out/report''),
            (''storage_type'', PStr ''local''),
            (''file_path'', PStr ''out/report''),
            (''presentation_id'', PStr ''deck'')]"
proof -
  let ?w = "unsigned_world env_local"
  let ?st1 = "\<lparr>presentations = [(''deck'', deck)], s3_handler_global = Some local_handler,
       trace = [ReadConfig]\<rparr>"
  have g: "get_s3_handler ?w one_deck_state = (Inr local_handler, ?st1)"
    by (simp add: example_defs string_defs S3Handler_init_def get_s3_handler_def log_event_def
          Let_def)
  have en: "\<not> s3_enabled local_handler"
    by (simp add: local_handler_def)
  have r: "resolve_pres_id ?w (Some ''deck'') = Inr (Some ''deck'')"
    by (simp add: resolve_pres_id_def)
  have m: "map_of (presentations one_deck_state) ''deck'' = Some deck"
    by (simp add: one_deck_state_def)
  have sv: "ppt_save_presentation ?w deck ''out/report'' = Inr ''out/report''"
    by (simp add: example_defs)
  note t = local_save_verbatim_path [of ?w one_deck_state local_handler ?st1 "Some ''deck''"
      "''deck''" deck "''out/report''", rule_format,
      OF conjI [OF g conjI [OF en conjI [OF r m]]]]
  from t have "trace (snd (save_presentation ?w ''out/report'' (Some ''deck'') one_deck_state))
      = trace ?st1 @ [LocalSave deck ''out/report'']"
    by (rule conjunct1)
  then have tr: "trace (snd (save_presentation ?w ''out/report'' (Some ''deck'')
      one_deck_state)) = [ReadConfig, LocalSave deck ''out/report'']"
    by simp
  from t sv have "fst (save_presentation ?w ''out/report'' (Some ''deck'') one_deck_state) =
       Inr [(''success'', PBool True),
            (''message'', PStr (''Presentation saved to local file: '' @ ''out/report'')),
            (''storage_type'', PStr ''local''),
            (''file_path'', PStr ''out/report''),
            (''presentation_id'', PStr ''deck'')]"
    by blast
  then have res: "fst (save_presentation ?w ''out/report'' (Some ''deck'') one_deck_state) =
       Inr [(''success'', PBool True),
            (''message'', PStr ''Presentation saved to local file: out/report''),
            (''storage_type'', PStr ''local''),
            (''file_path'', PStr ''out/report''),
            (''presentation_id'', PStr ''deck'')]"
    by simp
  show ?thesis
    by (intro conjI g en r m sv tr res)
qed

end
